theory Spec2Isabelle
  imports Main
begin

section \<open>Thrown values\<close>

text \<open>
  Every \<^verbatim>\<open>throw\<close> and every rejected promise of the source is a value of
  \<open>js_error\<close> on the left of a sum.  \<open>Error m\<close> is \<^verbatim>\<open>new Error(m)\<close>; the two
  classes imported from \<^verbatim>\<open>shared/types/errors\<close> keep their own constructors;
  \<open>Thrown s\<close> is a thrown value that is not an \<^verbatim>\<open>Error\<close> instance, carried as
  the text \<^verbatim>\<open>String(value)\<close> gives for it.
\<close>

datatype js_error =
    Error string
  | RateLimitExceededError string
  | SecurityError string
  | Thrown string

text \<open>\<^verbatim>\<open>error instanceof Error ? error.message : String(error)\<close>\<close>

fun error_text :: "js_error \<Rightarrow> string" where
  "error_text (Error m) = m"
| "error_text (RateLimitExceededError m) = m"
| "error_text (SecurityError m) = m"
| "error_text (Thrown s) = s"

text \<open>\<^verbatim>\<open>x || d\<close> on an optional string: \<^verbatim>\<open>undefined\<close> and the empty string are falsy.\<close>

fun or_else :: "string option \<Rightarrow> string \<Rightarrow> string" where
  "or_else None d = d"
| "or_else (Some s) d = (if s = [] then d else s)"

section \<open>The actor platform\<close>

text \<open>
  The Durable Object namespace is an external collaborator.  A stub is the handle that
  \<^verbatim>\<open>namespace.get(namespace.idFromName(name), options)\<close> returns; it is determined by
  the name and the options.  An option that is absent and one that is \<^verbatim>\<open>undefined\<close>
  read the same, so both are \<open>None\<close>.  The namespace says for which name and options the
  lookup throws, and holds one actor for every name and jurisdiction.  An actor answers
  \<^verbatim>\<open>isInitialized()\<close> and \<^verbatim>\<open>getFullState()\<close> from its fields, \<^verbatim>\<open>setState(s)\<close>
  replaces its state, and every call to an actor that is unreachable rejects.
  Logger calls are not modelled.
\<close>

record get_options =
  locationHint :: "string option"
  jurisdiction :: "string option"

datatype stub = Stub (stub_name: string) (stub_options: get_options)

type_synonym actor_key = "string \<times> string option"

definition stub_key :: "stub \<Rightarrow> actor_key" where
  "stub_key s = (stub_name s, jurisdiction (stub_options s))"

record 's actor =
  act_initialized :: bool
  act_state :: 's
  act_unreachable :: "js_error option"

type_synonym 's actors = "actor_key \<Rightarrow> 's actor"

record namespace =
  ns_get_throws :: "string \<Rightarrow> get_options \<Rightarrow> js_error option"

record Env =
  CodeGenObject :: "namespace option"

text \<open>The calls made on the platform, in the order they are issued.\<close>

datatype 's call =
    NsGet string get_options
  | IsInitialized stub
  | GetFullState stub
  | SetState stub 's

definition getAgentByName :: "namespace \<Rightarrow> string \<Rightarrow> get_options \<Rightarrow> js_error + stub" where
  "getAgentByName ns name options =
     (case ns_get_throws ns name options of
        Some e \<Rightarrow> Inl e
      | None \<Rightarrow> Inr (Stub name options))"

definition stub_isInitialized :: "'s actors \<Rightarrow> stub \<Rightarrow> js_error + bool" where
  "stub_isInitialized w s =
     (case act_unreachable (w (stub_key s)) of
        Some e \<Rightarrow> Inl e
      | None \<Rightarrow> Inr (act_initialized (w (stub_key s))))"

definition stub_getFullState :: "'s actors \<Rightarrow> stub \<Rightarrow> js_error + 's" where
  "stub_getFullState w s =
     (case act_unreachable (w (stub_key s)) of
        Some e \<Rightarrow> Inl e
      | None \<Rightarrow> Inr (act_state (w (stub_key s))))"

definition stub_setState :: "'s actors \<Rightarrow> stub \<Rightarrow> 's \<Rightarrow> js_error + 's actors" where
  "stub_setState w s st =
     (case act_unreachable (w (stub_key s)) of
        Some e \<Rightarrow> Inl e
      | None \<Rightarrow> Inr (w(stub_key s := (w (stub_key s))\<lparr>act_state := st\<rparr>)))"

section \<open>getAgentStub\<close>

definition search_options :: "string option \<Rightarrow> get_options" where
  "search_options j = \<lparr>locationHint = Some ''enam'', jurisdiction = j\<rparr>"

definition direct_options :: get_options where
  "direct_options = \<lparr>locationHint = Some ''enam'', jurisdiction = None\<rparr>"

definition jurisdictions :: "string option list" where
  "jurisdictions = [None, Some ''eu'']"

text \<open>
  The \<^verbatim>\<open>for (const jurisdiction of jurisdictions)\<close> loop.  The result is the stub the
  loop returns from the function with, or \<open>None\<close> when the loop runs to its end; a
  throw inside the \<^verbatim>\<open>try\<close> is caught and the loop goes on.
\<close>

fun search_loop :: "namespace \<Rightarrow> 's actors \<Rightarrow> string \<Rightarrow> string option list \<Rightarrow> stub option \<times> 's call list" where
  "search_loop ns w agentId [] = (None, [])"
| "search_loop ns w agentId (j # js) =
     (case getAgentByName ns agentId (search_options j) of
        Inl error \<Rightarrow>
          (let (r, cs) = search_loop ns w agentId js
           in (r, NsGet agentId (search_options j) # cs))
      | Inr stub \<Rightarrow>
          (case stub_isInitialized w stub of
             Inl error \<Rightarrow>
               (let (r, cs) = search_loop ns w agentId js
                in (r, NsGet agentId (search_options j) # IsInitialized stub # cs))
           | Inr isInitialized \<Rightarrow>
               if isInitialized
               then (Some stub, [NsGet agentId (search_options j), IsInitialized stub])
               else (let (r, cs) = search_loop ns w agentId js
                     in (r, NsGet agentId (search_options j) # IsInitialized stub # cs))))"

definition getAgentStub ::
  "Env \<Rightarrow> 's actors \<Rightarrow> string \<Rightarrow> bool \<Rightarrow> (js_error + stub) \<times> 's call list" where
  "getAgentStub env w agentId searchInOtherJurisdictions =
     (case CodeGenObject env of
        None \<Rightarrow> (Inl (Error ''CodeGenObject namespace not available in environment''), [])
      | Some ns \<Rightarrow>
          (let (found, cs) =
                 (if searchInOtherJurisdictions
                  then search_loop ns w agentId jurisdictions
                  else (None, []))
           in case found of
                Some stub \<Rightarrow> (Inr stub, cs)
              | None \<Rightarrow>
                  (case getAgentByName ns agentId direct_options of
                     Inl error \<Rightarrow> (Inl error, cs @ [NsGet agentId direct_options])
                   | Inr stub \<Rightarrow> (Inr stub, cs @ [NsGet agentId direct_options]))))"

section \<open>cloneAgent\<close>

text \<open>
  \<^verbatim>\<open>CodeGenState\<close> is declared outside the files at hand.  The record has the
  fields \<^verbatim>\<open>cloneAgent\<close> names; every other field of the state is in the record's
  extension part, which the object spread \<^verbatim>\<open>...originalState\<close> copies.  The types of
  the generation promise and of a reported client error are parameters;
  \<^verbatim>\<open>undefined\<close> is \<open>None\<close>.
\<close>

record ('p, 'c) CodeGenState =
  sessionId :: string
  sandboxInstanceId :: "string option"
  pendingUserInputs :: "string list"
  currentDevState :: nat
  generationPromise :: "'p option"
  shouldBeGenerating :: bool
  clientReportedErrors :: "'c list"

definition newState ::
  "('p, 'c, 'm) CodeGenState_scheme \<Rightarrow> string \<Rightarrow> ('p, 'c, 'm) CodeGenState_scheme" where
  "newState originalState newAgentId =
     originalState\<lparr>
       sessionId := newAgentId,
       sandboxInstanceId := None,
       pendingUserInputs := [],
       currentDevState := 0,
       generationPromise := None,
       shouldBeGenerating := False,
       clientReportedErrors := []\<rparr>"

record clone_result =
  newAgentId :: string
  newAgent :: stub

text \<open>
  \<open>generatedId\<close> is what \<^verbatim>\<open>generateId()\<close> returns.  The result is the returned value
  or the thrown one, the actors after the call, and the calls made.
\<close>

definition cloneAgent ::
  "Env \<Rightarrow> ('p, 'c, 'm) CodeGenState_scheme actors \<Rightarrow> string \<Rightarrow> string \<Rightarrow>
   (js_error + clone_result) \<times> ('p, 'c, 'm) CodeGenState_scheme actors \<times>
   ('p, 'c, 'm) CodeGenState_scheme call list" where
  "cloneAgent env w agentId generatedId =
     (case getAgentStub env w agentId True of
        (Inl e, cs1) \<Rightarrow> (Inl e, w, cs1)
      | (Inr agentInstance, cs1) \<Rightarrow>
          (case stub_isInitialized w agentInstance of
             Inl e \<Rightarrow> (Inl e, w, cs1 @ [IsInitialized agentInstance])
           | Inr isInit \<Rightarrow>
               if \<not> isInit
               then (Inl (Error (''Agent '' @ agentId @ '' not found'')), w,
                     cs1 @ [IsInitialized agentInstance])
               else
                 (case getAgentStub env w generatedId False of
                    (Inl e, cs2) \<Rightarrow> (Inl e, w, cs1 @ [IsInitialized agentInstance] @ cs2)
                  | (Inr newAgentStub, cs2) \<Rightarrow>
                      (case stub_getFullState w agentInstance of
                         Inl e \<Rightarrow>
                           (Inl e, w,
                            cs1 @ [IsInitialized agentInstance] @ cs2 @ [GetFullState agentInstance])
                       | Inr originalState \<Rightarrow>
                           (case stub_setState w newAgentStub (newState originalState generatedId) of
                              Inl e \<Rightarrow>
                                (Inl e, w,
                                 cs1 @ [IsInitialized agentInstance] @ cs2 @
                                 [GetFullState agentInstance,
                                  SetState newAgentStub (newState originalState generatedId)])
                            | Inr w' \<Rightarrow>
                                (Inr \<lparr>newAgentId = generatedId, newAgent = newAgentStub\<rparr>, w',
                                 cs1 @ [IsInitialized agentInstance] @ cs2 @
                                 [GetFullState agentInstance,
                                  SetState newAgentStub (newState originalState generatedId)]))))))"


section \<open>selectTemplate\<close>

text \<open>\<^verbatim>\<open>Array.prototype.join\<close> on strings.\<close>

fun join :: "string \<Rightarrow> string list \<Rightarrow> string" where
  "join sep [] = []"
| "join sep [x] = x"
| "join sep (x # y # ys) = x @ sep @ join sep (y # ys)"

text \<open>A natural number in a template literal: its decimal digits.\<close>

fun show_nat :: "nat \<Rightarrow> string" where
  "show_nat n =
     (if n < 10 then [''0123456789'' ! n]
      else show_nat (n div 10) @ [''0123456789'' ! (n mod 10)])"

text \<open>An optional string in a template literal: \<^verbatim>\<open>undefined\<close> prints as its name.\<close>

fun show_opt :: "string option \<Rightarrow> string" where
  "show_opt None = ''undefined''"
| "show_opt (Some s) = s"

text \<open>
  An element of \<^verbatim>\<open>TemplateListResponse['templates']\<close>, with the fields the two files
  read; \<open>description_selection\<close> is \<^verbatim>\<open>description.selection\<close>.
\<close>

record template =
  tpl_name :: string
  tpl_language :: "string option"
  tpl_frameworks :: "string list option"
  description_selection :: string

record TemplateSelection =
  selectedTemplateName :: "string option"
  reasoning :: string
  useCase :: "string option"
  complexity :: "string option"
  styleSelection :: "string option"
  projectName :: string

text \<open>
  The arguments \<^verbatim>\<open>executeInference\<close> is called with (the environment and the fixed
  schema left out).  The AI collaborator is a function from them to what the call
  throws or returns; \<open>Inr None\<close> is a returned value without an \<^verbatim>\<open>object\<close>, on which
  the destructuring and the log line that follows throw a \<^verbatim>\<open>TypeError\<close> inside the
  \<^verbatim>\<open>try\<close>.
\<close>

record 'ctx inference_args =
  messages :: "(string \<times> string) list"
  agentActionName :: string
  inf_context :: 'ctx
  maxTokens :: nat

type_synonym 'ctx inference = "'ctx inference_args \<Rightarrow> js_error + TemplateSelection option"

definition systemPrompt :: string where
  \<open>systemPrompt = join ''\<newline>''
    [''You are an Expert Software Architect at Cloudflare specializing in template selection for rapid development. Your task is to select the most suitable starting template based on user requirements.'',
     '''',
     ''## SELECTION EXAMPLES:'',
     '''',
     ''**Example 1 - Game Request:**'',
     ''User: "Build a 2D puzzle game with scoring"'',
     ''Templates: ["react-dashboard", "react-game-starter", "vue-blog"]'',
     ''Selection: "react-game-starter"'',
     ''complexity: "simple"'',
     ''Reasoning: "Game starter template provides canvas setup, state management, and scoring systems"'',
     '''',
     ''**Example 2 - Business Dashboard:**'',
     ''User: "Create an analytics dashboard with charts"'',
     ''Templates: ["react-dashboard", "nextjs-blog", "vanilla-js"]'',
     ''Selection: "react-dashboard"'',
     ''complexity: "simple" // Because single page application'',
     ''Reasoning: "Dashboard template includes chart components, grid layouts, and data visualization setup"'',
     '''',
     ''**Example 3 - No Perfect Match:**'',
     ''User: "Build a recipe sharing app"'',
     ''Templates: ["react-social", "vue-blog", "angular-todo"]'',
     ''Selection: "react-social"'',
     ''complexity: "simple" // Because single page application'',
     ''Reasoning: "Social template provides user interactions, content sharing, and community features closest to recipe sharing needs"'',
     '''',
     ''## SELECTION CRITERIA:'',
     ''1. **Feature Alignment** - Templates with similar core functionality'',
     ''2. **Tech Stack Match** - Compatible frameworks and dependencies  '',
     ''3. **Architecture Fit** - Similar application structure and patterns'',
     ''4. **Minimal Modification** - Template requiring least changes'',
     '''',
     ''## STYLE GUIDE:'',
     ''- **Minimalist Design**: Clean, simple interfaces'',
     ''- **Brutalism**: Bold, raw, industrial aesthetics'',
     ''- **Retro**: Vintage, nostalgic design elements'',
     ''- **Illustrative**: Rich graphics and visual storytelling'',
     ''- **Kid_Playful**: Colorful, fun, child-friendly interfaces'',
     '''',
     ''## RULES:'',
     ''- ALWAYS select a template (never return null)'',
     ''- Ignore misleading template names - analyze actual features'',
     ''- Focus on functionality over naming conventions'',
     ''- Provide clear, specific reasoning for selection'']\<close>

fun describe_templates :: "nat \<Rightarrow> template list \<Rightarrow> string list" where
  "describe_templates index [] = []"
| "describe_templates index (t # ts) =
     (''- Template #'' @ show_nat (index + 1) @ '' \<newline> Name - '' @ tpl_name t @
      '' \<newline> Language: '' @ show_opt (tpl_language t) @ '', Frameworks: '' @
      or_else (map_option (join '', '') (tpl_frameworks t)) ''None'' @
      ''\<newline> '' @ description_selection t)
     # describe_templates (index + 1) ts"

definition templateDescriptions :: "template list \<Rightarrow> string" where
  "templateDescriptions availableTemplates =
     join ''\<newline>\<newline>'' (describe_templates 0 availableTemplates)"

definition userPrompt :: "string \<Rightarrow> template list \<Rightarrow> string \<Rightarrow> string" where
  \<open>userPrompt query availableTemplates token = join ''\<newline>''
    [(''**User Request:** "'' @ query @ ''"''),
     '''',
     ''**Available Templates:**'',
     templateDescriptions availableTemplates,
     '''',
     ''**Task:** Select the most suitable template and provide:'',
     ''1. Template name (exact match from list)'',
     ''2. Clear reasoning for why it fits the user's needs'',
     ''3. Appropriate style for the project type. Try to come up with unique styles that might look nice and unique. Be creative about your choices.'',
     ''4. Descriptive project name'',
     '''',
     ''Analyze each template's features, frameworks, and architecture to make the best match.'',
     '''',
     (''ENTROPY SEED: '' @ token @ '' - for unique results'')]\<close>

text \<open>
  \<^verbatim>\<open>error instanceof RateLimitExceededError\<close> and \<^verbatim>\<open>error instanceof SecurityError\<close>.
  The two classes are declared outside the files at hand; the source tests an error
  for both at once, so whether one extends the other makes no difference here.
\<close>

fun instanceof_RateLimitExceededError :: "js_error \<Rightarrow> bool" where
  "instanceof_RateLimitExceededError (RateLimitExceededError m) = True"
| "instanceof_RateLimitExceededError e = False"

fun instanceof_SecurityError :: "js_error \<Rightarrow> bool" where
  "instanceof_SecurityError (SecurityError m) = True"
| "instanceof_SecurityError e = False"

text \<open>
  The body of the \<^verbatim>\<open>try\<close>, from the call of the AI collaborator on: what it throws,
  or the selection it returns with.
\<close>

definition inference_attempt ::
  "'ctx inference \<Rightarrow> 'ctx inference_args \<Rightarrow> js_error + TemplateSelection" where
  "inference_attempt executeInference args =
     (case executeInference args of
        Inl error \<Rightarrow> Inl error
      | Inr None \<Rightarrow> Inl (Error ''TypeError'')
      | Inr (Some selection) \<Rightarrow> Inr selection)"

text \<open>
  \<open>token\<close> is what \<^verbatim>\<open>generateSecureToken(64)\<close> returns.  The second component of
  the result lists the calls made to the AI collaborator.
\<close>

definition selectTemplate ::
  "'ctx inference \<Rightarrow> string \<Rightarrow> string \<Rightarrow> template list \<Rightarrow> 'ctx \<Rightarrow>
   (js_error + TemplateSelection) \<times> 'ctx inference_args list" where
  "selectTemplate executeInference token query availableTemplates inferenceContext =
     (if length availableTemplates = 0
      then (Inr \<lparr>selectedTemplateName = None,
                 reasoning = ''No templates were available to choose from.'',
                 useCase = None, complexity = None, styleSelection = None,
                 projectName = ''''\<rparr>, [])
      else
        (let args = \<lparr>messages = [(''system'', systemPrompt),
                                  (''user'', userPrompt query availableTemplates token)],
                      agentActionName = ''templateSelection'',
                      inf_context = inferenceContext,
                      maxTokens = 2000\<rparr>
         in case inference_attempt executeInference args of
              Inr selection \<Rightarrow> (Inr selection, [args])
            | Inl error \<Rightarrow>
                if instanceof_RateLimitExceededError error \<or> instanceof_SecurityError error
                then (Inl error, [args])
                else (Inr \<lparr>selectedTemplateName = None,
                           reasoning = ''An error occurred during the template selection process.'',
                           useCase = None, complexity = None, styleSelection = None,
                           projectName = ''''\<rparr>, [args])))"

section \<open>getTemplateForQuery\<close>

text \<open>
  The sandbox service is an external collaborator.  \<open>listTemplates\<close> is what
  \<^verbatim>\<open>SandboxSdkClient.listTemplates()\<close> throws or returns (\<open>Inr None\<close> for a null
  response); \<open>getSandboxService\<close> gives, for a session identifier, what the call throws
  or the client, and the client is its \<^verbatim>\<open>getTemplateDetails\<close>.  The type of a file of
  the manifest is a parameter.  When both promises given to \<^verbatim>\<open>Promise.all\<close> reject,
  \<open>sandboxRejectsFirst\<close> says which rejection is the one observed.
\<close>

record TemplateListResponse =
  list_success :: bool
  templates :: "template list"
  list_error :: "string option"

record 'f TemplateDetails =
  td_name :: string
  td_files :: "'f list option"

record 'f TemplateDetailsResponse =
  details_success :: bool
  templateDetails :: "'f TemplateDetails option"
  details_error :: "string option"

type_synonym 'f sandbox_client = "string \<Rightarrow> js_error + 'f TemplateDetailsResponse"

record 'f sandbox =
  listTemplates :: "js_error + TemplateListResponse option"
  getSandboxService :: "string \<Rightarrow> js_error + 'f sandbox_client"
  sandboxRejectsFirst :: bool

record 'f template_result =
  res_sandboxSessionId :: string
  res_templateDetails :: "'f TemplateDetails"
  res_selection :: TemplateSelection

text \<open>\<^verbatim>\<open>!s\<close> on an optional string.\<close>

fun falsy :: "string option \<Rightarrow> bool" where
  "falsy None = True"
| "falsy (Some s) = (s = [])"

text \<open>
  \<open>generatedId\<close> is what \<^verbatim>\<open>generateId()\<close> returns for the sandbox session and
  \<open>token\<close> what \<^verbatim>\<open>generateSecureToken(64)\<close> returns inside \<^verbatim>\<open>selectTemplate\<close>.
\<close>

definition getTemplateForQuery ::
  "'f sandbox \<Rightarrow> 'ctx inference \<Rightarrow> string \<Rightarrow> string \<Rightarrow> 'ctx \<Rightarrow> string \<Rightarrow>
   js_error + 'f template_result" where
  "getTemplateForQuery sb executeInference generatedId token inferenceContext query =
     (case listTemplates sb of
        Inl e \<Rightarrow> Inl e
      | Inr None \<Rightarrow>
          Inl (Error (''Failed to fetch templates from sandbox service: '' @ ''Unknown error''))
      | Inr (Some templatesResponse) \<Rightarrow>
          if \<not> list_success templatesResponse
          then Inl (Error (''Failed to fetch templates from sandbox service: '' @
                           or_else (list_error templatesResponse) ''Unknown error''))
          else
            (let sandboxSessionId = generatedId
             in case (fst (selectTemplate executeInference token query
                             (templates templatesResponse) inferenceContext),
                      getSandboxService sb sandboxSessionId) of
                  (Inl e1, Inl e2) \<Rightarrow> Inl (if sandboxRejectsFirst sb then e2 else e1)
                | (Inl e1, Inr _) \<Rightarrow> Inl e1
                | (Inr _, Inl e2) \<Rightarrow> Inl e2
                | (Inr analyzeQueryResponse, Inr sandboxClient) \<Rightarrow>
                    if falsy (selectedTemplateName analyzeQueryResponse)
                    then Inl (Error ''No suitable template found for code generation'')
                    else
                      (case find (\<lambda>t. Some (tpl_name t) = selectedTemplateName analyzeQueryResponse)
                              (templates templatesResponse) of
                         None \<Rightarrow>
                           Inl (Error (''Selected template '' @ [CHR 0x27] @
                                       show_opt (selectedTemplateName analyzeQueryResponse) @
                                       [CHR 0x27] @ '' not found in available templates''))
                       | Some selectedTemplate \<Rightarrow>
                           (case sandboxClient (tpl_name selectedTemplate) of
                              Inl e \<Rightarrow> Inl e
                            | Inr templateDetailsResponse \<Rightarrow>
                                (case (details_success templateDetailsResponse,
                                       templateDetails templateDetailsResponse) of
                                   (True, Some details) \<Rightarrow>
                                     Inr \<lparr>res_sandboxSessionId = sandboxSessionId,
                                          res_templateDetails = details,
                                          res_selection = analyzeQueryResponse\<rparr>
                                 | _ \<Rightarrow>
                                     Inl (Error (''Failed to fetch template details: '' @
                                                 or_else (details_error templateDetailsResponse)
                                                   ''Unknown error'')))))))"

section \<open>The controller\<close>

text \<open>
  What the two handlers return.  \<^verbatim>\<open>createErrorResponse\<close> belongs to
  \<^verbatim>\<open>BaseController\<close>, outside the files at hand: a call of it is the constructor of
  that name applied to the message, or the error object, and the status of the call.
  \<open>Plain\<close> is
  \<^verbatim>\<open>new Response(body, {status})\<close>, \<open>Forwarded\<close> a response that the routing facility or
  the agent produced, \<open>WebSocketResponse\<close> a response with a status and the client end
  of a socket pair, given by what was done on the server end, and \<open>Stream\<close> a response
  with a status, headers and the readable side of the transform stream, given by the
  chunks that come out of it.
\<close>

datatype error_payload = Message string | ErrorObject js_error

datatype socket_event = Accept | Send string | Close nat string

record 'f initial_response =
  ir_message :: string
  ir_agentId :: string
  websocketUrl :: string
  httpStatusUrl :: string
  ir_template_name :: string
  ir_template_files :: "'f list option"

datatype 'f written =
    Initial "'f initial_response"
  | Chunk string
  | InitError string
  | Terminate

datatype ('f, 'r) response =
    createErrorResponse error_payload nat
  | Plain string nat
  | Forwarded 'r
  | WebSocketResponse nat "socket_event list"
  | Stream nat "(string \<times> string) list" "'f written list"

record user =
  user_id :: string
  user_email :: string

record CodeGenArgs =
  query :: "string option"
  language :: "string option"
  frameworks :: "string list option"
  selectedTemplate :: "string option"
  agentMode :: "string option"

definition defaultCodeGenArgs :: CodeGenArgs where
  "defaultCodeGenArgs =
     \<lparr>query = Some '''',
      language = Some ''typescript'',
      frameworks = Some [''react'', ''vite''],
      selectedTemplate = Some ''auto'',
      agentMode = Some ''deterministic''\<rparr>"

record 'v ModelConfig =
  mc_name :: 'v
  max_tokens :: 'v
  temperature :: 'v
  reasoning_effort :: 'v
  fallbackModel :: 'v

record 'v merged_config = "'v ModelConfig" +
  isUserOverride :: bool

record 'v InferenceContext =
  userModelConfigs :: "(string \<times> 'v ModelConfig) list"
  agentId :: string
  userId :: string
  enableRealtimeCodeFix :: bool

text \<open>
  A request, as far as the handlers read it: the parts of its URL, its headers under
  their lower-case names, what \<^verbatim>\<open>request.json()\<close> throws or returns, the
  \<^verbatim>\<open>agentId\<close> path parameter and the user of the route context.
\<close>

record request =
  url_protocol :: string
  url_hostname :: string
  url_port :: string
  url_host :: string
  url_origin :: string
  headers :: "string \<rightharpoonup> string"
  json_body :: "js_error + CodeGenArgs"
  path_agentId :: "string option"
  context_user :: "user option"

record ('v, 'f) init_params =
  ip_query :: string
  ip_language :: string
  ip_frameworks :: "string list"
  ip_hostname :: string
  ip_inferenceContext :: "'v InferenceContext"
  ip_templateDetails :: "'f TemplateDetails"
  ip_selection :: TemplateSelection
  ip_sandboxSessionId :: string

text \<open>
  The collaborators of the controller, and the values of the run that the source draws
  from outside: the identifiers \<^verbatim>\<open>generateId()\<close> returns for the agent and for the
  sandbox session, the token of \<^verbatim>\<open>generateSecureToken\<close>, the preview domain, the
  constant \<^verbatim>\<open>WebSocketMessageResponses.ERROR\<close>, and \<^verbatim>\<open>JSON.stringify\<close> on a thrown
  value (plain and indented).  \<open>agent_initialize\<close> gives the blueprint chunks the agent
  passes to the callback and how the promise of \<^verbatim>\<open>initialize\<close> settles;
  \<open>new_Request_throws\<close> says what the constructor \<^verbatim>\<open>new Request\<close> throws, if anything,
  on the request it is to build.
\<close>

text \<open>
  What \<^verbatim>\<open>agentInstance.fetch\<close> does with the forwarded request: it throws inside the
  \<^verbatim>\<open>try\<close>, or it returns a promise, which rejects or resolves with a response.
\<close>

datatype 'r fetch_outcome = FetchThrows js_error | FetchRejects js_error | FetchResolves 'r

record ('v, 'f, 'r) deps =
  enforceAppCreationRateLimit :: "user \<Rightarrow> js_error option"
  getUserModelConfigs :: "string \<Rightarrow> js_error + (string \<times> 'v merged_config) list"
  configsRejectFirst :: bool
  dep_sandbox :: "'f sandbox"
  executeInference :: "'v InferenceContext inference"
  agent_initialize :: "stub \<Rightarrow> ('v, 'f) init_params \<Rightarrow> string \<Rightarrow> string list \<times> js_error option"
  validateWebSocketOrigin :: "request \<Rightarrow> bool"
  routeAgentRequest :: "request \<Rightarrow> js_error + 'r option"
  new_Request_throws :: "request \<Rightarrow> js_error option"
  agent_fetch :: "stub \<Rightarrow> request \<Rightarrow> 'r fetch_outcome"
  generated_agentId :: string
  generated_sessionId :: string
  secure_token :: string
  previewDomain :: string
  ws_ERROR :: string
  stringify_thrown :: "js_error \<Rightarrow> string"
  stringify_thrown_indented :: "js_error \<Rightarrow> string"

text \<open>What a handler does besides returning, in order.\<close>

datatype ('v, 'f) effect =
    EnforceAppCreationRateLimit user
  | GenerateId
  | GetUserModelConfigs string
  | GetAgentStub string bool
  | GetTemplateForQuery string
  | AgentInitialize stub "('v, 'f) init_params" string

text \<open>\<^verbatim>\<open>error instanceof Error\<close>\<close>

fun instanceof_Error :: "js_error \<Rightarrow> bool" where
  "instanceof_Error (Thrown s) = False"
| "instanceof_Error e = True"

text \<open>
  The transform of the stream: the chunk \<^verbatim>\<open>"terminate"\<close> ends the readable side, any
  other chunk comes out as one line.
\<close>

fun transform :: "'f written list \<Rightarrow> 'f written list" where
  "transform [] = []"
| "transform (Terminate # ws) = []"
| "transform (w # ws) = w # transform ws"

definition user_model_configs :: "(string \<times> 'v merged_config) list \<Rightarrow> (string \<times> 'v ModelConfig) list" where
  "user_model_configs userConfigsRecord =
     map (\<lambda>(actionKey, mergedConfig).
            (actionKey,
             \<lparr>mc_name = mc_name mergedConfig,
              max_tokens = max_tokens mergedConfig,
              temperature = temperature mergedConfig,
              reasoning_effort = reasoning_effort mergedConfig,
              fallbackModel = fallbackModel mergedConfig\<rparr>))
         (filter (\<lambda>(actionKey, mergedConfig). isUserOverride mergedConfig) userConfigsRecord)"

text \<open>\<^verbatim>\<open>a || b\<close> on optional arrays: an array is truthy, also the empty one.\<close>

fun or_list :: "string list option \<Rightarrow> string list option \<Rightarrow> string list" where
  "or_list (Some a) b = a"
| "or_list None (Some b) = b"
| "or_list None None = []"

definition user_id_or_anonymous :: "user option \<Rightarrow> string" where
  "user_id_or_anonymous u = or_else (map_option user_id u) ''anonymous''"


subsection \<open>startCodeGeneration\<close>

text \<open>
  Lines 296 to 312: the rate limit is enforced when the context has a user.  The first
  component is the response the handler returns with, if it returns here.
\<close>

definition rate_limit_step ::
  "('v, 'f, 'r) deps \<Rightarrow> user option \<Rightarrow> ('f, 'r) response option \<times> ('v, 'f) effect list" where
  "rate_limit_step d usr =
     (case usr of
        Some u \<Rightarrow>
          (case enforceAppCreationRateLimit d u of
             Some error \<Rightarrow>
               (if instanceof_Error error
                then (Some (createErrorResponse (ErrorObject error) 429),
                      [EnforceAppCreationRateLimit u])
                else (Some (createErrorResponse (Message (stringify_thrown d error)) 429),
                      [EnforceAppCreationRateLimit u]))
           | None \<Rightarrow> (None, [EnforceAppCreationRateLimit u]))
      | None \<Rightarrow> (None, []))"

text \<open>
  Lines 314 to 342: the agent identifier, and the user's model configurations and the
  agent stub fetched together.
\<close>

definition fetch_configs_and_stub ::
  "('v, 'f, 'r) deps \<Rightarrow> Env \<Rightarrow> 's actors \<Rightarrow> user option \<Rightarrow>
   (js_error + (string \<times> 'v merged_config) list \<times> stub) \<times> ('v, 'f) effect list" where
  "fetch_configs_and_stub d env w usr =
     (let agentId = generated_agentId d;
          configs = (case usr of
                       Some u \<Rightarrow> getUserModelConfigs d (user_id u)
                     | None \<Rightarrow> Inr []);
          effs = GenerateId #
                 (case usr of Some u \<Rightarrow> [GetUserModelConfigs (user_id u)] | None \<Rightarrow> []) @
                 [GetAgentStub agentId False]
      in case (configs, fst (getAgentStub env w agentId False)) of
           (Inl e1, Inl e2) \<Rightarrow> (Inl (if configsRejectFirst d then e1 else e2), effs)
         | (Inl e1, Inr _) \<Rightarrow> (Inl e1, effs)
         | (Inr _, Inl e2) \<Rightarrow> (Inl e2, effs)
         | (Inr userConfigsRecord, Inr agentInstance) \<Rightarrow>
             (Inr (userConfigsRecord, agentInstance), effs))"

definition stream_headers :: "(string \<times> string) list" where
  "stream_headers =
     [(''Content-Type'', ''text/event-stream; charset=utf-8''),
      (''Cache-Control'', ''no-cache, no-store, must-revalidate, no-transform''),
      (''Pragma'', ''no-cache''),
      (''Connection'', ''keep-alive'')]"

text \<open>
  The handler.  The body is taken to be an object when it parses, and the platform
  constructors (\<^verbatim>\<open>URL\<close>, \<^verbatim>\<open>TransformStream\<close>, \<^verbatim>\<open>ModelConfigService\<close>) and the
  synchronous part of \<^verbatim>\<open>initialize\<close> not to throw, so the outermost \<^verbatim>\<open>catch\<close>, which
  answers with \<^verbatim>\<open>handleError\<close>, has no branch here.  The stream of the response holds what
  the background task writes until the promise of \<^verbatim>\<open>initialize\<close> has settled.
\<close>

definition startCodeGeneration ::
  "('v, 'f, 'r) deps \<Rightarrow> Env \<Rightarrow> 's actors \<Rightarrow> request \<Rightarrow>
   ('f, 'r) response \<times> ('v, 'f) effect list" where
  \<open>startCodeGeneration d env w request =
     (let hostname = (if url_hostname request = ''localhost''
                      then ''localhost:'' @ url_port request
                      else previewDomain d)
      in case json_body request of
           Inl error \<Rightarrow>
             (createErrorResponse
                (Message (''Invalid JSON in request body: '' @ stringify_thrown_indented d error)) 400,
              [])
         | Inr body \<Rightarrow>
             if falsy (query body)
             then (createErrorResponse (Message ''Missing "query" field in request body'') 400, [])
             else
               (let qry = show_opt (query body);
                    usr = context_user request
                in case rate_limit_step d usr of
                     (Some resp, effs1) \<Rightarrow> (resp, effs1)
                   | (None, effs1) \<Rightarrow>
                       (case fetch_configs_and_stub d env w usr of
                          (Inl error, effs2) \<Rightarrow>
                            (createErrorResponse
                               (Message (''Failed to initialize agent: '' @ error_text error)) 500,
                             effs1 @ effs2)
                        | (Inr (userConfigsRecord, agentInstance), effs2) \<Rightarrow>
                            (let agentId = generated_agentId d;
                                 inferenceContext =
                                   \<lparr>userModelConfigs = user_model_configs userConfigsRecord,
                                    agentId = agentId,
                                    userId = user_id_or_anonymous usr,
                                    enableRealtimeCodeFix = True\<rparr>
                             in case getTemplateForQuery (dep_sandbox d) (executeInference d)
                                       (generated_sessionId d) (secure_token d) inferenceContext qry of
                                  Inl error \<Rightarrow>
                                    (createErrorResponse
                                       (Message (''Failed to get template for query: '' @
                                                 error_text error)) 500,
                                     effs1 @ effs2 @ [GetTemplateForQuery qry])
                                | Inr templateResult \<Rightarrow>
                                    (let details = res_templateDetails templateResult;
                                         initialResponse =
                                           \<lparr>ir_message = ''Code generation started'',
                                            ir_agentId = agentId,
                                            websocketUrl =
                                              (if url_protocol request = ''https:'' then ''wss:'' else ''ws:'') @
                                              ''//'' @ url_host request @ ''/api/agent/'' @ agentId @ ''/ws'',
                                            httpStatusUrl =
                                              url_origin request @ ''/api/agent/'' @ agentId,
                                            ir_template_name = td_name details,
                                            ir_template_files = td_files details\<rparr>;
                                         agentInitParams =
                                           \<lparr>ip_query = qry,
                                            ip_language =
                                              or_else (language body)
                                                (show_opt (language defaultCodeGenArgs)),
                                            ip_frameworks =
                                              or_list (frameworks body)
                                                (frameworks defaultCodeGenArgs),
                                            ip_hostname = hostname,
                                            ip_inferenceContext = inferenceContext,
                                            ip_templateDetails = details,
                                            ip_selection = res_selection templateResult,
                                            ip_sandboxSessionId = res_sandboxSessionId templateResult\<rparr>;
                                         mode = or_else (agentMode body)
                                                  (show_opt (agentMode defaultCodeGenArgs))
                                     in case agent_initialize d agentInstance agentInitParams mode of
                                          (chunks, settled) \<Rightarrow>
                                            (Stream 200 stream_headers
                                               (transform
                                                  (Initial initialResponse # map Chunk chunks @
                                                   (case settled of
                                                      None \<Rightarrow> [Terminate]
                                                    | Some error \<Rightarrow>
                                                        [InitError (''Agent initialization failed: '' @
                                                                    error_text error)]))),
                                             effs1 @ effs2 @
                                             [GetTemplateForQuery qry,
                                              AgentInitialize agentInstance agentInitParams mode]))))))\<close>

subsection \<open>handleWebSocketConnection\<close>

text \<open>\<^verbatim>\<open>JSON.stringify\<close> on an object whose values are strings.\<close>

definition json_escape :: "char \<Rightarrow> string" where
  "json_escape c =
     (let n = (of_char c :: nat)
      in if n = 0x22 then [CHR 0x5C, CHR 0x22]
         else if n = 0x5C then [CHR 0x5C, CHR 0x5C]
         else if n = 8 then [CHR 0x5C, CHR ''b'']
         else if n = 9 then [CHR 0x5C, CHR ''t'']
         else if n = 10 then [CHR 0x5C, CHR ''n'']
         else if n = 12 then [CHR 0x5C, CHR ''f'']
         else if n = 13 then [CHR 0x5C, CHR ''r'']
         else if n < 32
         then [CHR 0x5C, CHR ''u'', CHR ''0'', CHR ''0'',
               ''0123456789abcdef'' ! (n div 16), ''0123456789abcdef'' ! (n mod 16)]
         else [c])"

definition json_string :: "string \<Rightarrow> string" where
  "json_string s = [CHR 0x22] @ concat (map json_escape s) @ [CHR 0x22]"

definition JSON_stringify :: "(string \<times> string) list \<Rightarrow> string" where
  "JSON_stringify kvs =
     ''{'' @ join '','' (map (\<lambda>(k, v). json_string k @ '':'' @ json_string v) kvs) @ ''}''"

text \<open>Lines 561 to 579: the response that stands in for a failed upgrade.\<close>

definition websocket_error_response :: "('v, 'f, 'r) deps \<Rightarrow> js_error \<Rightarrow> ('f, 'r) response" where
  "websocket_error_response d error =
     WebSocketResponse 101
       [Accept,
        Send (JSON_stringify
                [(''type'', ws_ERROR d),
                 (''error'', ''Failed to get agent instance: '' @ error_text error)]),
        Close 1011 ''Agent instance not found'']"

text \<open>
  The handler.  What \<^verbatim>\<open>new Request\<close> or the call of \<^verbatim>\<open>agentInstance.fetch\<close> throws
  inside the \<^verbatim>\<open>try\<close> is caught like a failed resolution.  A rejection of the promise
  that \<^verbatim>\<open>agentInstance.fetch\<close> returns is not caught, as the promise is returned
  without \<^verbatim>\<open>await\<close>: it is the \<open>Inl\<close> of the result.
  The origin check and the socket pair are taken not to throw, so the outermost
  \<^verbatim>\<open>catch\<close> has no branch here.
\<close>

definition handleWebSocketConnection ::
  "('v, 'f, 'r) deps \<Rightarrow> Env \<Rightarrow> 's actors \<Rightarrow> request \<Rightarrow> js_error + ('f, 'r) response" where
  "handleWebSocketConnection d env w request =
     (case path_agentId request of
        None \<Rightarrow> Inr (createErrorResponse (Message ''Missing agent ID parameter'') 400)
      | Some chatId \<Rightarrow>
          if chatId = [] then Inr (createErrorResponse (Message ''Missing agent ID parameter'') 400)
          else if headers request ''upgrade'' \<noteq> Some ''websocket''
          then Inr (Plain ''Expected WebSocket upgrade'' 426)
          else if \<not> validateWebSocketOrigin d request
          then Inr (Plain ''Forbidden: Invalid origin'' 403)
          else
            (case routeAgentRequest d request of
               Inl error \<Rightarrow> Inr (websocket_error_response d error)
             | Inr (Some response) \<Rightarrow> Inr (Forwarded response)
             | Inr None \<Rightarrow>
                 (case fst (getAgentStub env w chatId True) of
                    Inl error \<Rightarrow> Inr (websocket_error_response d error)
                  | Inr agentInstance \<Rightarrow>
                      (let modifiedRequest =
                             request\<lparr>headers :=
                               (headers request)(''namespace'' \<mapsto> ''CodeGenObject'',
                                                 ''room'' \<mapsto> chatId)\<rparr>
                       in case new_Request_throws d modifiedRequest of
                            Some error \<Rightarrow> Inr (websocket_error_response d error)
                          | None \<Rightarrow>
                              (case agent_fetch d agentInstance modifiedRequest of
                                 FetchThrows error \<Rightarrow> Inr (websocket_error_response d error)
                               | FetchRejects error \<Rightarrow> Inl error
                               | FetchResolves response \<Rightarrow> Inr (Forwarded response))))))"


section \<open>Notions the properties are stated with\<close>

text \<open>
  The actor of jurisdiction \<open>j\<close> reports initialized to the search: its stub resolves
  and \<^verbatim>\<open>isInitialized()\<close> answers \<^verbatim>\<open>true\<close>.
\<close>

definition reports_initialized :: "namespace \<Rightarrow> 's actors \<Rightarrow> string \<Rightarrow> string option \<Rightarrow> bool" where
  "reports_initialized ns w aid j =
     (case getAgentByName ns aid (search_options j) of
        Inl e \<Rightarrow> False
      | Inr s \<Rightarrow> stub_isInitialized w s = Inr True)"

text \<open>The jurisdictions of the lookups among the calls, in order.\<close>

fun tried :: "'s call list \<Rightarrow> string option list" where
  "tried [] = []"
| "tried (NsGet n opts # cs) = jurisdiction opts # tried cs"
| "tried (c # cs) = tried cs"

text \<open>The stubs that \<^verbatim>\<open>setState\<close> is called on among the calls, in order.\<close>

fun writes :: "'s call list \<Rightarrow> stub list" where
  "writes [] = []"
| "writes (SetState s st # cs) = s # writes cs"
| "writes (c # cs) = writes cs"

text \<open>The state of the actor \<open>k\<close> after \<^verbatim>\<open>cloneAgent\<close> has run.\<close>

definition state_after ::
  "(js_error + clone_result) \<times> 's actors \<times> 's call list \<Rightarrow> actor_key \<Rightarrow> 's" where
  "state_after outcome k = act_state (fst (snd outcome) k)"

text \<open>A text occurs in a message.\<close>

fun embeds :: "string \<Rightarrow> string \<Rightarrow> bool" where
  "embeds t [] = (t = [])"
| "embeds t (c # cs) = (take (length t) (c # cs) = t \<or> embeds t cs)"

section \<open>Example inputs\<close>

text \<open>
  A namespace whose lookups succeed and one whose lookups throw; actors of which only
  the one named \<open>src\<close> in the jurisdiction \<open>eu\<close> is initialized, actors that are all
  initialized, and actors of which none is.
\<close>

definition ex_ns :: namespace where
  "ex_ns = \<lparr>ns_get_throws = (\<lambda>n opts. None)\<rparr>"

definition ex_env :: Env where
  "ex_env = \<lparr>CodeGenObject = Some ex_ns\<rparr>"

definition ex_ns_throwing :: namespace where
  "ex_ns_throwing = \<lparr>ns_get_throws = (\<lambda>n opts. Some (Error ''lookup failed''))\<rparr>"

definition ex_env_throwing :: Env where
  "ex_env_throwing = \<lparr>CodeGenObject = Some ex_ns_throwing\<rparr>"

definition ex_state :: "(nat, string, string \<times> string list) CodeGenState_scheme" where
  "ex_state =
     \<lparr>sessionId = ''src'', sandboxInstanceId = Some ''sbx-1'',
      pendingUserInputs = [''make it blue''], currentDevState = 3,
      generationPromise = Some 7, shouldBeGenerating = True,
      clientReportedErrors = [''TypeError''],
      \<dots> = (''typescript'', [''react'', ''vite''])\<rparr>"

definition ex_actors :: "(nat, string, string \<times> string list) CodeGenState_scheme actors" where
  "ex_actors k =
     \<lparr>act_initialized = (k = (''src'', Some ''eu'')), act_state = ex_state,
      act_unreachable = None\<rparr>"

definition ex_actors_both :: "unit actors" where
  "ex_actors_both k = \<lparr>act_initialized = True, act_state = (), act_unreachable = None\<rparr>"

definition ex_actors_none :: "unit actors" where
  "ex_actors_none k = \<lparr>act_initialized = False, act_state = (), act_unreachable = None\<rparr>"

text \<open>
  The candidate templates of the scenario of the specification, an AI collaborator that
  answers with a given template name and one that fails with a given error, and sandbox
  services: one that works, two that list no template, the second with an error text
  beside its empty list, one whose listing fails and one that has no details for any
  template.
\<close>

definition ex_templates :: "template list" where
  "ex_templates =
     [\<lparr>tpl_name = ''react-dashboard'', tpl_language = Some ''typescript'',
       tpl_frameworks = Some [''react''], description_selection = ''Dashboards with charts''\<rparr>,
      \<lparr>tpl_name = ''react-game-starter'', tpl_language = Some ''typescript'',
       tpl_frameworks = Some [''react'', ''vite''], description_selection = ''Canvas games''\<rparr>,
      \<lparr>tpl_name = ''vue-blog'', tpl_language = None,
       tpl_frameworks = None, description_selection = ''A blog''\<rparr>]"

definition ex_selection :: "string option \<Rightarrow> TemplateSelection" where
  "ex_selection n =
     \<lparr>selectedTemplateName = n, reasoning = ''Closest match'', useCase = Some ''game'',
      complexity = Some ''simple'', styleSelection = Some ''Retro'', projectName = ''puzzle''\<rparr>"

definition ex_ai :: "string option \<Rightarrow> 'ctx inference" where
  "ex_ai n = (\<lambda>args. Inr (Some (ex_selection n)))"

definition ex_ai_failing :: "js_error \<Rightarrow> 'ctx inference" where
  "ex_ai_failing e = (\<lambda>args. Inl e)"

definition ex_list :: TemplateListResponse where
  "ex_list = \<lparr>list_success = True, templates = ex_templates, list_error = None\<rparr>"

definition ex_client :: "string sandbox_client" where
  "ex_client n =
     Inr \<lparr>details_success = True,
          templateDetails =
            Some \<lparr>td_name = n, td_files = Some [''package.json'', ''src/main.tsx'']\<rparr>,
          details_error = None\<rparr>"

definition ex_client_failing :: "string sandbox_client" where
  "ex_client_failing n =
     Inr \<lparr>details_success = False, templateDetails = None,
          details_error = Some ''not in catalogue''\<rparr>"

definition ex_sandbox :: "string sandbox" where
  "ex_sandbox =
     \<lparr>listTemplates = Inr (Some ex_list),
      getSandboxService = (\<lambda>sessionId. Inr ex_client),
      sandboxRejectsFirst = False\<rparr>"

definition ex_sandbox_empty :: "string sandbox" where
  "ex_sandbox_empty =
     \<lparr>listTemplates =
        Inr (Some \<lparr>list_success = True, templates = [], list_error = None\<rparr>),
      getSandboxService = (\<lambda>sessionId. Inr ex_client),
      sandboxRejectsFirst = False\<rparr>"

definition ex_sandbox_empty_with_text :: "string sandbox" where
  "ex_sandbox_empty_with_text =
     \<lparr>listTemplates =
        Inr (Some \<lparr>list_success = True, templates = [], list_error = Some ''boom''\<rparr>),
      getSandboxService = (\<lambda>sessionId. Inr ex_client),
      sandboxRejectsFirst = False\<rparr>"

definition ex_sandbox_failed :: "string sandbox" where
  "ex_sandbox_failed =
     \<lparr>listTemplates =
        Inr (Some \<lparr>list_success = False, templates = [], list_error = Some ''boom''\<rparr>),
      getSandboxService = (\<lambda>sessionId. Inr ex_client),
      sandboxRejectsFirst = False\<rparr>"

definition ex_sandbox_no_details :: "string sandbox" where
  "ex_sandbox_no_details =
     \<lparr>listTemplates = Inr (Some ex_list),
      getSandboxService = (\<lambda>sessionId. Inr ex_client_failing),
      sandboxRejectsFirst = False\<rparr>"

text \<open>
  An environment without the namespace, collaborators of the controller whose rate limit
  rejects the user \<open>limited\<close> and whose routing facility declines every request, the
  same collaborators with an AI collaborator that fails with a timeout, users, and a
  request for the agent \<open>agent-1\<close> with a given user and \<^verbatim>\<open>query\<close> field.
\<close>

definition ex_env_unavailable :: Env where
  "ex_env_unavailable = \<lparr>CodeGenObject = None\<rparr>"

definition ex_deps :: "(nat, string, string) deps" where
  "ex_deps =
     \<lparr>enforceAppCreationRateLimit =
        (\<lambda>u. if user_id u = ''limited''
             then Some (RateLimitExceededError ''Rate limit exceeded'') else None),
      getUserModelConfigs = (\<lambda>uid. Inr []),
      configsRejectFirst = False,
      dep_sandbox = ex_sandbox,
      executeInference = ex_ai (Some ''react-game-starter''),
      agent_initialize = (\<lambda>s p m. ([''blueprint''], None)),
      validateWebSocketOrigin = (\<lambda>r. True),
      routeAgentRequest = (\<lambda>r. Inr None),
      new_Request_throws = (\<lambda>r. None),
      agent_fetch = (\<lambda>s r. FetchResolves ''upgraded''),
      generated_agentId = ''agent-1'',
      generated_sessionId = ''session-1'',
      secure_token = ''tok'',
      previewDomain = ''preview.example.com'',
      ws_ERROR = ''error'',
      stringify_thrown = (\<lambda>e. ''{}''),
      stringify_thrown_indented = (\<lambda>e. ''{}'')\<rparr>"

definition ex_deps_ai_failing :: "(nat, string, string) deps" where
  "ex_deps_ai_failing = ex_deps\<lparr>executeInference := ex_ai_failing (Error ''timeout'')\<rparr>"

definition ex_user :: "string \<Rightarrow> user" where
  "ex_user n = \<lparr>user_id = n, user_email = n @ ''@example.com''\<rparr>"

definition ex_request :: "user option \<Rightarrow> string option \<Rightarrow> request" where
  "ex_request u q =
     \<lparr>url_protocol = ''https:'', url_hostname = ''build.example.com'', url_port = '''',
      url_host = ''build.example.com'', url_origin = ''https://build.example.com'',
      headers = [''upgrade'' \<mapsto> ''websocket''],
      json_body = Inr \<lparr>query = q, language = None, frameworks = None,
                        selectedTemplate = None, agentMode = None\<rparr>,
      path_agentId = Some ''agent-1'',
      context_user = u\<rparr>"

section \<open>Lemmas on the actor platform\<close>

lemmas ex_platform_simps =
  ex_env_def ex_ns_def ex_actors_def ex_actors_both_def ex_actors_none_def
  ex_ns_throwing_def ex_env_throwing_def
  reports_initialized_def getAgentByName_def stub_isInitialized_def stub_getFullState_def
  stub_setState_def stub_key_def search_options_def direct_options_def jurisdictions_def

lemma stub_key_search [simp]: "stub_key (Stub aid (search_options j)) = (aid, j)"
  by (simp add: stub_key_def search_options_def)

lemma stub_key_direct [simp]: "stub_key (Stub aid direct_options) = (aid, None)"
  by (simp add: stub_key_def direct_options_def)

lemma getAgentByName_name: "getAgentByName ns aid opts = Inr s \<Longrightarrow> s = Stub aid opts"
  by (auto simp: getAgentByName_def split: option.splits)

lemma reports_initializedD:
  "reports_initialized ns w aid j \<Longrightarrow>
   getAgentByName ns aid (search_options j) = Inr (Stub aid (search_options j)) \<and>
   stub_isInitialized w (Stub aid (search_options j)) = Inr True"
  by (auto simp: reports_initialized_def getAgentByName_def split: sum.splits option.splits)

lemma isInitialized_reachable:
  "stub_isInitialized w s = Inr b \<Longrightarrow> act_unreachable (w (stub_key s)) = None"
  by (auto simp: stub_isInitialized_def split: option.splits)

lemma stub_setState_frame:
  "stub_setState w s st = Inr w' \<Longrightarrow>
   w' = w(stub_key s := (w (stub_key s))\<lparr>act_state := st\<rparr>)"
  by (auto simp: stub_setState_def split: option.splits)

text \<open>One turn of the loop, by whether the jurisdiction reports initialized.\<close>

lemma search_loop_step_not:
  "\<not> reports_initialized ns w aid j \<Longrightarrow>
   fst (search_loop ns w aid (j # js)) = fst (search_loop ns w aid js) \<and>
   tried (snd (search_loop ns w aid (j # js))) = j # tried (snd (search_loop ns w aid js))"
  by (auto simp: reports_initialized_def search_options_def split: sum.splits prod.splits)

lemma search_loop_step_yes:
  "reports_initialized ns w aid j \<Longrightarrow>
   search_loop ns w aid (j # js) =
     (Some (Stub aid (search_options j)),
      [NsGet aid (search_options j), IsInitialized (Stub aid (search_options j))])"
  by (auto simp: reports_initialized_def getAgentByName_def split: sum.splits option.splits)

lemma search_loop_find:
  "find (reports_initialized ns w aid) js = Some j \<Longrightarrow>
   fst (search_loop ns w aid js) = Some (Stub aid (search_options j)) \<and>
   tried (snd (search_loop ns w aid js)) =
     takeWhile (\<lambda>x. \<not> reports_initialized ns w aid x) js @ [j]"
proof (induction js)
  case Nil
  then show ?case by simp
next
  case (Cons x xs)
  show ?case
  proof (cases "reports_initialized ns w aid x")
    case True
    with Cons.prems have "x = j" by simp
    with True show ?thesis
      by (simp add: search_loop_step_yes search_options_def del: search_loop.simps)
  next
    case False
    with Cons.prems have "find (reports_initialized ns w aid) xs = Some j" by simp
    from Cons.IH [OF this] search_loop_step_not [OF False, of xs] False
    show ?thesis by (simp del: search_loop.simps)
  qed
qed

lemma search_loop_none:
  "find (reports_initialized ns w aid) js = None \<Longrightarrow>
   fst (search_loop ns w aid js) = None \<and> tried (snd (search_loop ns w aid js)) = js"
proof (induction js)
  case Nil
  then show ?case by simp
next
  case (Cons x xs)
  then have no: "\<not> reports_initialized ns w aid x"
    and rest: "find (reports_initialized ns w aid) xs = None"
    by (auto split: if_splits)
  from Cons.IH [OF rest] search_loop_step_not [OF no, of xs]
  show ?case by (simp del: search_loop.simps)
qed

lemma search_loop_name:
  "fst (search_loop ns w aid js) = Some s \<Longrightarrow> stub_name s = aid"
  by (induction js)
    (auto simp: getAgentByName_def split: sum.splits prod.splits option.splits if_splits)

lemma writes_append: "writes (xs @ ys) = writes xs @ writes ys"
  by (induction xs rule: writes.induct) simp_all

lemma search_loop_no_writes: "writes (snd (search_loop ns w aid js)) = []"
  by (induction js) (auto split: sum.splits prod.splits)

text \<open>\<^verbatim>\<open>getAgentStub\<close> by its three paths.\<close>

lemma getAgentStub_search:
  "CodeGenObject env = Some ns \<Longrightarrow>
   getAgentStub env w aid True =
     (case fst (search_loop ns w aid jurisdictions) of
        Some s \<Rightarrow> (Inr s, snd (search_loop ns w aid jurisdictions))
      | None \<Rightarrow> (getAgentByName ns aid direct_options,
                 snd (search_loop ns w aid jurisdictions) @ [NsGet aid direct_options]))"
  by (simp add: getAgentStub_def split: prod.splits option.splits sum.splits)

lemma getAgentStub_no_search:
  "CodeGenObject env = Some ns \<Longrightarrow>
   getAgentStub env w aid False =
     (getAgentByName ns aid direct_options, [NsGet aid direct_options])"
  by (simp add: getAgentStub_def split: sum.splits)

lemma getAgentStub_unavailable:
  "CodeGenObject env = None \<Longrightarrow>
   getAgentStub env w aid b =
     (Inl (Error ''CodeGenObject namespace not available in environment''), [])"
  by (simp add: getAgentStub_def)

lemma getAgentStub_found:
  assumes "CodeGenObject env = Some ns"
    and "find (reports_initialized ns w aid) jurisdictions = Some j"
  shows "fst (getAgentStub env w aid True) = Inr (Stub aid (search_options j))"
    and "tried (snd (getAgentStub env w aid True)) =
           takeWhile (\<lambda>x. \<not> reports_initialized ns w aid x) jurisdictions @ [j]"
  using assms search_loop_find [OF assms(2)]
  by (auto simp: getAgentStub_def split: prod.splits option.splits)

lemma getAgentStub_no_writes: "writes (snd (getAgentStub env w aid b)) = []"
proof (cases "CodeGenObject env")
  case None
  then show ?thesis by (simp add: getAgentStub_unavailable)
next
  case (Some ns)
  show ?thesis
  proof (cases b)
    case True
    with Some show ?thesis
      by (simp add: getAgentStub_search search_loop_no_writes writes_append split: option.splits)
  next
    case False
    with Some show ?thesis by (simp add: getAgentStub_no_search)
  qed
qed

lemma getAgentStub_name:
  assumes "fst (getAgentStub env w aid b) = Inr s"
  shows "stub_name s = aid"
proof (cases "CodeGenObject env")
  case None
  with assms show ?thesis by (simp add: getAgentStub_unavailable)
next
  case (Some ns)
  show ?thesis
  proof (cases b)
    case True
    with Some assms show ?thesis
      by (auto simp: getAgentStub_search split: option.splits
          dest: search_loop_name getAgentByName_name)
  next
    case False
    with Some assms show ?thesis
      by (auto simp: getAgentStub_no_search dest: getAgentByName_name)
  qed
qed

lemma getAgentStub_direct:
  "fst (getAgentStub env w nid False) = Inr s \<Longrightarrow> s = Stub nid direct_options"
  by (auto simp: getAgentStub_def getAgentByName_def split: option.splits sum.splits)

text \<open>The example run of \<^verbatim>\<open>cloneAgent\<close>, step by step.\<close>

lemma ex_source:
  "getAgentStub ex_env ex_actors ''src'' True =
     (Inr (Stub ''src'' (search_options (Some ''eu''))),
      [NsGet ''src'' (search_options None), IsInitialized (Stub ''src'' (search_options None)),
       NsGet ''src'' (search_options (Some ''eu'')),
       IsInitialized (Stub ''src'' (search_options (Some ''eu'')))])"
  by (simp add: ex_platform_simps getAgentStub_def)

lemma ex_new:
  "getAgentStub ex_env ex_actors ''new'' False =
     (Inr (Stub ''new'' direct_options), [NsGet ''new'' direct_options])"
  by (simp add: ex_platform_simps getAgentStub_def)

lemma ex_clone:
  "cloneAgent ex_env ex_actors ''src'' ''new'' =
     (Inr \<lparr>newAgentId = ''new'', newAgent = Stub ''new'' direct_options\<rparr>,
      ex_actors((''new'', None) :=
        (ex_actors (''new'', None))\<lparr>act_state := newState ex_state ''new''\<rparr>),
      [NsGet ''src'' (search_options None), IsInitialized (Stub ''src'' (search_options None)),
       NsGet ''src'' (search_options (Some ''eu'')),
       IsInitialized (Stub ''src'' (search_options (Some ''eu''))),
       IsInitialized (Stub ''src'' (search_options (Some ''eu''))),
       NsGet ''new'' direct_options,
       GetFullState (Stub ''src'' (search_options (Some ''eu''))),
       SetState (Stub ''new'' direct_options) (newState ex_state ''new'')])"
proof -
  have i: "stub_isInitialized ex_actors (Stub ''src'' (search_options (Some ''eu''))) = Inr True"
    by (simp add: stub_isInitialized_def ex_actors_def)
  have f: "stub_getFullState ex_actors (Stub ''src'' (search_options (Some ''eu''))) = Inr ex_state"
    by (simp add: stub_getFullState_def ex_actors_def)
  have s: "stub_setState ex_actors (Stub ''new'' direct_options) st =
        Inr (ex_actors((''new'', None) := (ex_actors (''new'', None))\<lparr>act_state := st\<rparr>))" for st
    by (simp add: stub_setState_def ex_actors_def)
  show ?thesis
    unfolding cloneAgent_def ex_source ex_new by (simp add: i f s)
qed

section \<open>Properties of getAgentStub\<close>

text \<open>
  C5.  In a jurisdiction search the jurisdictions are the default one and \<open>eu\<close>, tried
  in this order, and the search returns the handle of the first jurisdiction whose actor
  reports initialized: the lookups made are those of the jurisdictions before it and its
  own, and no other.  When the default jurisdiction reports initialized, whatever \<open>eu\<close>
  reports, the handle returned is the default one's.
\<close>

theorem getAgentStub_first_initialized:
  assumes "CodeGenObject env = Some ns"
    and "find (reports_initialized ns w aid) jurisdictions = Some j"
  shows "jurisdictions = [None, Some ''eu''] \<and>
         fst (getAgentStub env w aid True) = Inr (Stub aid (search_options j)) \<and>
         tried (snd (getAgentStub env w aid True)) =
           takeWhile (\<lambda>x. \<not> reports_initialized ns w aid x) jurisdictions @ [j] \<and>
         (reports_initialized ns w aid None \<longrightarrow> j = None)"
proof -
  have "reports_initialized ns w aid None \<longrightarrow> j = None"
    using assms(2) by (auto simp: jurisdictions_def)
  with getAgentStub_found [OF assms] show ?thesis
    by (simp add: jurisdictions_def)
qed

theorem getAgentStub_first_initialized_witness:
  "find (reports_initialized ex_ns ex_actors ''src'') jurisdictions = Some (Some ''eu'') \<and>
   fst (getAgentStub ex_env ex_actors ''src'' True) =
     Inr (Stub ''src'' (search_options (Some ''eu''))) \<and>
   tried (snd (getAgentStub ex_env ex_actors ''src'' True)) = [None, Some ''eu''] \<and>
   find (reports_initialized ex_ns ex_actors_both ''src'') jurisdictions = Some None \<and>
   fst (getAgentStub ex_env ex_actors_both ''src'' True) =
     Inr (Stub ''src'' (search_options None)) \<and>
   tried (snd (getAgentStub ex_env ex_actors_both ''src'' True)) = [None]"
proof -
  have e: "CodeGenObject ex_env = Some ex_ns" by (simp add: ex_env_def)
  have f1: "find (reports_initialized ex_ns ex_actors ''src'') jurisdictions = Some (Some ''eu'')"
    by (simp add: ex_platform_simps)
  have f2: "find (reports_initialized ex_ns ex_actors_both ''src'') jurisdictions = Some None"
    by (simp add: ex_platform_simps)
  have t1: "takeWhile (\<lambda>x. \<not> reports_initialized ex_ns ex_actors ''src'' x) jurisdictions = [None]"
    by (simp add: ex_platform_simps)
  have t2: "takeWhile (\<lambda>x. \<not> reports_initialized ex_ns ex_actors_both ''src'' x) jurisdictions = []"
    by (simp add: ex_platform_simps)
  from getAgentStub_first_initialized [OF e f1] getAgentStub_first_initialized [OF e f2]
    f1 f2 t1 t2
  show ?thesis by simp
qed

text \<open>
  C6, as stated, fails: when no jurisdiction reports initialized the function goes on to
  the direct lookup, and when that lookup throws, the function throws.  Here every lookup
  of the namespace throws.
\<close>

theorem getAgentStub_none_initialized_raises:
  "find (reports_initialized ex_ns_throwing ex_actors_none ''src'') jurisdictions = None \<and>
   fst (getAgentStub ex_env_throwing ex_actors_none ''src'' True) = Inl (Error ''lookup failed'')"
  by (simp add: ex_platform_simps getAgentStub_def)

text \<open>
  C6, amended.  When no jurisdiction reports initialized, the search has tried both
  jurisdictions and the function goes on to the direct lookup in the default
  jurisdiction: its outcome is the outcome of that lookup.  It throws only what that
  lookup throws, and a handle it returns is the default jurisdiction's, whose actor has
  not reported initialized.
\<close>

theorem getAgentStub_none_initialized:
  assumes "CodeGenObject env = Some ns"
    and "find (reports_initialized ns w aid) jurisdictions = None"
  shows "fst (getAgentStub env w aid True) = getAgentByName ns aid direct_options \<and>
         tried (snd (getAgentStub env w aid True)) = jurisdictions @ [None] \<and>
         (\<forall>s. fst (getAgentStub env w aid True) = Inr s \<longrightarrow>
              s = Stub aid direct_options \<and> stub_isInitialized w s \<noteq> Inr True)"
proof -
  from search_loop_none [OF assms(2)]
  have g: "getAgentStub env w aid True =
        (getAgentByName ns aid direct_options,
         snd (search_loop ns w aid jurisdictions) @ [NsGet aid direct_options])"
    and t: "tried (snd (search_loop ns w aid jurisdictions)) = jurisdictions"
    by (simp_all add: getAgentStub_search [OF assms(1)])
  have tr: "tried (xs @ [NsGet aid direct_options]) = tried xs @ [None]" for xs :: "'a call list"
    by (induction xs rule: tried.induct) (simp_all add: direct_options_def)
  have "\<not> reports_initialized ns w aid None"
    using assms(2) by (auto simp: jurisdictions_def split: if_splits)
  then have "getAgentByName ns aid direct_options = Inr s \<Longrightarrow>
             s = Stub aid direct_options \<and> stub_isInitialized w s \<noteq> Inr True" for s
    by (auto simp: reports_initialized_def search_options_def direct_options_def
        dest: getAgentByName_name)
  with g t tr show ?thesis by simp
qed

theorem getAgentStub_none_initialized_witness:
  "find (reports_initialized ex_ns ex_actors_none ''src'') jurisdictions = None \<and>
   fst (getAgentStub ex_env ex_actors_none ''src'' True) = Inr (Stub ''src'' direct_options) \<and>
   stub_isInitialized ex_actors_none (Stub ''src'' direct_options) = Inr False"
proof -
  have e: "CodeGenObject ex_env = Some ex_ns" by (simp add: ex_env_def)
  have f: "find (reports_initialized ex_ns ex_actors_none ''src'') jurisdictions = None"
    by (simp add: ex_platform_simps)
  from getAgentStub_none_initialized [OF e f]
  have r: "fst (getAgentStub ex_env ex_actors_none ''src'' True) =
             getAgentByName ex_ns ''src'' direct_options"
    by (rule conjunct1)
  have g: "getAgentByName ex_ns ''src'' direct_options = Inr (Stub ''src'' direct_options)"
    by (simp add: getAgentByName_def ex_ns_def)
  have i: "stub_isInitialized ex_actors_none (Stub ''src'' direct_options) = Inr False"
    by (simp add: stub_isInitialized_def ex_actors_none_def)
  from f r g i show ?thesis by simp
qed


section \<open>Properties of cloneAgent\<close>

text \<open>
  C2, as stated, fails: the stage of the development cycle, \<^verbatim>\<open>currentDevState\<close>, is not
  one of the six fields the claim lists, and the clone does not share it with the source.
  The source here is at stage 3 and the clone at stage 0.
\<close>

theorem cloneAgent_resets_currentDevState:
  "fst (cloneAgent ex_env ex_actors ''src'' ''new'') =
     Inr \<lparr>newAgentId = ''new'', newAgent = Stub ''new'' direct_options\<rparr> \<and>
   currentDevState (act_state (ex_actors (''src'', Some ''eu''))) = 3 \<and>
   currentDevState (state_after (cloneAgent ex_env ex_actors ''src'' ''new'') (''new'', None)) = 0"
  by (simp add: ex_clone newState_def state_after_def) (simp add: ex_actors_def ex_state_def)

text \<open>
  C2, amended.  When the source actor reports initialized in the jurisdiction \<open>j\<close> that
  the search finds first, and the stub of the new identifier resolves and its actor is
  reachable, \<^verbatim>\<open>cloneAgent\<close> returns the new identifier with its stub, and the state it
  has written to the new actor has the new identifier as its session identifier, no
  sandbox binding, no pending inputs, the stage of the development cycle reset to 0, no
  generation promise, the generation flag false and no reported client errors; every
  other field is the source's.
\<close>

theorem cloneAgent_new_state:
  assumes ns: "CodeGenObject env = Some ns"
    and src: "find (reports_initialized ns w aid) jurisdictions = Some j"
    and get: "ns_get_throws ns nid direct_options = None"
    and reach: "act_unreachable (w (nid, None)) = None"
  shows "fst (cloneAgent env w aid nid) =
           Inr \<lparr>newAgentId = nid, newAgent = Stub nid direct_options\<rparr> \<and>
         (let new = state_after (cloneAgent env w aid nid) (nid, None);
              original = act_state (w (aid, j))
          in sessionId new = nid \<and>
             sandboxInstanceId new = None \<and>
             pendingUserInputs new = [] \<and>
             currentDevState new = 0 \<and>
             generationPromise new = None \<and>
             shouldBeGenerating new = False \<and>
             clientReportedErrors new = [] \<and>
             CodeGenState.more new = CodeGenState.more original)"
proof -
  let ?s = "Stub aid (search_options j)"
  from src have rep: "reports_initialized ns w aid j"
    by (auto simp: find_Some_iff)
  from reports_initializedD [OF rep] have init: "stub_isInitialized w ?s = Inr True" by simp
  from isInitialized_reachable [OF init] have r1: "act_unreachable (w (aid, j)) = None" by simp
  have g1: "getAgentStub env w aid True = (Inr ?s, snd (getAgentStub env w aid True))"
    using getAgentStub_found(1) [OF ns src] by (simp add: prod_eq_iff)
  have g2: "getAgentStub env w nid False =
        (Inr (Stub nid direct_options), [NsGet nid direct_options])"
    using get by (simp add: getAgentStub_no_search [OF ns] getAgentByName_def)
  have full: "stub_getFullState w ?s = Inr (act_state (w (aid, j)))"
    using r1 by (simp add: stub_getFullState_def)
  have set: "stub_setState w (Stub nid direct_options) st =
        Inr (w((nid, None) := (w (nid, None))\<lparr>act_state := st\<rparr>))" for st
    using reach by (simp add: stub_setState_def)
  have "cloneAgent env w aid nid =
          (Inr \<lparr>newAgentId = nid, newAgent = Stub nid direct_options\<rparr>,
           w((nid, None) := (w (nid, None))\<lparr>act_state := newState (act_state (w (aid, j))) nid\<rparr>),
           snd (getAgentStub env w aid True) @ [IsInitialized ?s] @ [NsGet nid direct_options] @
           [GetFullState ?s, SetState (Stub nid direct_options) (newState (act_state (w (aid, j))) nid)])"
    unfolding cloneAgent_def
    apply (subst g1)
    apply (simp add: init g2 full set)
    done
  then show ?thesis
    by (simp add: state_after_def newState_def)
qed

theorem cloneAgent_new_state_witness:
  "fst (cloneAgent ex_env ex_actors ''src'' ''new'') =
     Inr \<lparr>newAgentId = ''new'', newAgent = Stub ''new'' direct_options\<rparr> \<and>
   pendingUserInputs (act_state (ex_actors (''src'', Some ''eu''))) = [''make it blue''] \<and>
   clientReportedErrors (act_state (ex_actors (''src'', Some ''eu''))) = [''TypeError''] \<and>
   pendingUserInputs (state_after (cloneAgent ex_env ex_actors ''src'' ''new'') (''new'', None)) = [] \<and>
   clientReportedErrors (state_after (cloneAgent ex_env ex_actors ''src'' ''new'') (''new'', None)) = [] \<and>
   CodeGenState.more (state_after (cloneAgent ex_env ex_actors ''src'' ''new'') (''new'', None)) =
     (''typescript'', [''react'', ''vite''])"
proof -
  have e: "CodeGenObject ex_env = Some ex_ns" by (simp add: ex_env_def)
  have f: "find (reports_initialized ex_ns ex_actors ''src'') jurisdictions = Some (Some ''eu'')"
    by (simp add: ex_platform_simps)
  have g: "ns_get_throws ex_ns ''new'' direct_options = None" by (simp add: ex_ns_def)
  have r: "act_unreachable (ex_actors (''new'', None)) = None" by (simp add: ex_actors_def)
  have o: "act_state (ex_actors (''src'', Some ''eu'')) = ex_state" by (simp add: ex_actors_def)
  from cloneAgent_new_state [OF e f g r]
  show ?thesis by (simp add: Let_def o) (simp add: ex_state_def)
qed

text \<open>
  C10.  \<^verbatim>\<open>cloneAgent\<close> calls \<^verbatim>\<open>setState\<close> on no stub but the one of the generated
  identifier in the default jurisdiction, and leaves every other actor as it was.  The
  located source actor has the name asked for, so when the generated identifier is a
  fresh one the source actor is unchanged and no \<^verbatim>\<open>setState\<close> goes to its stub: the
  calls it receives are \<^verbatim>\<open>isInitialized\<close> and \<^verbatim>\<open>getFullState\<close>.
\<close>

theorem cloneAgent_only_writes_new:
  assumes "cloneAgent env w aid nid = (res, w', cs)"
  shows "set (writes cs) \<subseteq> {Stub nid direct_options} \<and>
         (\<forall>k. k \<noteq> (nid, None) \<longrightarrow> w' k = w k) \<and>
         (\<forall>src. fst (getAgentStub env w aid True) = Inr src \<and> aid \<noteq> nid \<longrightarrow>
                w' (stub_key src) = w (stub_key src) \<and> src \<notin> set (writes cs))"
proof -
  have a: "set (writes cs) \<subseteq> {Stub nid direct_options}"
    using assms getAgentStub_no_writes [of env w aid True] getAgentStub_no_writes [of env w nid False]
      getAgentStub_direct [of env w nid]
    by (auto simp: cloneAgent_def writes_append split: prod.splits sum.splits if_splits)
  have b: "\<forall>k. k \<noteq> (nid, None) \<longrightarrow> w' k = w k"
    using assms getAgentStub_direct [of env w nid]
    by (auto simp: cloneAgent_def stub_key_def direct_options_def
        dest!: stub_setState_frame split: prod.splits sum.splits if_splits)
  have c: "\<forall>src. fst (getAgentStub env w aid True) = Inr src \<and> aid \<noteq> nid \<longrightarrow>
                w' (stub_key src) = w (stub_key src) \<and> src \<notin> set (writes cs)"
    using a b getAgentStub_name [of env w aid True]
    by (auto simp: stub_key_def)
  from a b c show ?thesis by blast
qed

theorem cloneAgent_only_writes_new_witness:
  "writes (snd (snd (cloneAgent ex_env ex_actors ''src'' ''new''))) = [Stub ''new'' direct_options] \<and>
   fst (snd (cloneAgent ex_env ex_actors ''src'' ''new'')) (''src'', Some ''eu'') =
     ex_actors (''src'', Some ''eu'')"
proof -
  have c: "cloneAgent ex_env ex_actors ''src'' ''new'' =
        (fst (cloneAgent ex_env ex_actors ''src'' ''new''),
         fst (snd (cloneAgent ex_env ex_actors ''src'' ''new'')),
         snd (snd (cloneAgent ex_env ex_actors ''src'' ''new'')))" by simp
  have s: "fst (getAgentStub ex_env ex_actors ''src'' True) =
             Inr (Stub ''src'' (search_options (Some ''eu'')))"
    by (simp add: ex_source)
  have w: "writes (snd (snd (cloneAgent ex_env ex_actors ''src'' ''new''))) =
             [Stub ''new'' direct_options]"
    by (simp add: ex_clone)
  have n: "''src'' \<noteq> ''new''" by simp
  from cloneAgent_only_writes_new [OF c]
  have "\<forall>src. fst (getAgentStub ex_env ex_actors ''src'' True) = Inr src \<and> ''src'' \<noteq> ''new'' \<longrightarrow>
          fst (snd (cloneAgent ex_env ex_actors ''src'' ''new'')) (stub_key src) =
            ex_actors (stub_key src) \<and>
          src \<notin> set (writes (snd (snd (cloneAgent ex_env ex_actors ''src'' ''new''))))"
    by blast
  with s n have "fst (snd (cloneAgent ex_env ex_actors ''src'' ''new''))
          (stub_key (Stub ''src'' (search_options (Some ''eu'')))) =
        ex_actors (stub_key (Stub ''src'' (search_options (Some ''eu''))))"
    by blast
  with w show ?thesis by simp
qed


section \<open>Properties of selectTemplate\<close>

text \<open>
  C3.  With no candidate template \<^verbatim>\<open>selectTemplate\<close> returns, without throwing, a
  selection whose template name is null and whose reasoning is a text that is not
  empty, and it makes no call to the AI collaborator.
\<close>

theorem selectTemplate_no_candidates:
  "\<exists>r. selectTemplate ai tok q [] ctx = (Inr r, []) \<and>
       selectedTemplateName r = None \<and> reasoning r \<noteq> [] \<and>
       reasoning r = ''No templates were available to choose from.''"
  by (simp add: selectTemplate_def)

lemma getTemplateForQuery_on_fallback:
  assumes "listTemplates sb = Inr (Some resp)" and "list_success resp"
    and "getSandboxService sb gid = Inr client"
    and "fst (selectTemplate ai tok q (templates resp) ctx) = Inr sel"
    and "selectedTemplateName sel = None"
  shows "getTemplateForQuery sb ai gid tok ctx q =
           Inl (Error ''No suitable template found for code generation'')"
  using assms by (simp add: getTemplateForQuery_def)

lemma selectTemplate_ordinary_failure:
  assumes "ts \<noteq> []" and "\<forall>a. ai a = Inl e"
    and "\<not> (instanceof_RateLimitExceededError e \<or> instanceof_SecurityError e)"
  shows "fst (selectTemplate ai tok q ts ctx) =
           Inr \<lparr>selectedTemplateName = None,
                reasoning = ''An error occurred during the template selection process.'',
                useCase = None, complexity = None, styleSelection = None, projectName = ''''\<rparr>"
  using assms by (simp add: selectTemplate_def inference_attempt_def Let_def)

lemma startCodeGeneration_on_fallback:
  assumes body: "json_body request = Inr body" and qry: "\<not> falsy (query body)"
    and usr: "\<forall>u. context_user request = Some u \<longrightarrow>
           enforceAppCreationRateLimit d u = None \<and>
           (\<exists>configs. getUserModelConfigs d (user_id u) = Inr configs)"
    and stub: "fst (getAgentStub env w (generated_agentId d) False) = Inr agentInstance"
    and 1: "listTemplates (dep_sandbox d) = Inr (Some resp)" and 2: "list_success resp"
    and ne: "templates resp \<noteq> []"
    and 3: "getSandboxService (dep_sandbox d) (generated_sessionId d) = Inr client"
    and f: "\<forall>a. executeInference d a = Inl e"
    and o: "\<not> (instanceof_RateLimitExceededError e \<or> instanceof_SecurityError e)"
  shows "fst (startCodeGeneration d env w request) =
        createErrorResponse
          (Message ''Failed to get template for query: No suitable template found for code generation'')
          500"
proof -
  have g: "getTemplateForQuery (dep_sandbox d) (executeInference d) (generated_sessionId d)
             (secure_token d) ctx' q' =
           Inl (Error ''No suitable template found for code generation'')" for ctx' q'
    by (rule getTemplateForQuery_on_fallback
          [OF 1 2 3 selectTemplate_ordinary_failure [OF ne f o]]) simp
  show ?thesis
  proof (cases "context_user request")
    case None
    with body qry stub show ?thesis
      by (simp add: startCodeGeneration_def rate_limit_step_def fetch_configs_and_stub_def g
          split: prod.splits)
  next
    case (Some u)
    with usr obtain configs where "enforceAppCreationRateLimit d u = None"
      and "getUserModelConfigs d (user_id u) = Inr configs"
      by auto
    with body qry stub Some show ?thesis
      by (simp add: startCodeGeneration_def rate_limit_step_def fetch_configs_and_stub_def g
          split: prod.splits)
  qed
qed

text \<open>
  C4, as stated, fails twice at one input, where the AI collaborator fails with a
  timeout.  The fallback that \<^verbatim>\<open>selectTemplate\<close> returns is not the result of the case
  without candidates, as the two differ in their reasoning text.  And the enclosing
  workflow is aborted: \<^verbatim>\<open>getTemplateForQuery\<close> throws on the null name of the fallback,
  and \<^verbatim>\<open>startCodeGeneration\<close> answers with status 500.
\<close>

theorem selectTemplate_fallback_differs:
  \<open>fst (selectTemplate (ex_ai_failing (Error ''timeout'')) ''tok'' ''q'' ex_templates ()) =
     Inr \<lparr>selectedTemplateName = None,
          reasoning = ''An error occurred during the template selection process.'',
          useCase = None, complexity = None, styleSelection = None, projectName = ''''\<rparr> \<and>
   fst (selectTemplate (ex_ai_failing (Error ''timeout'')) ''tok'' ''q'' [] ()) =
     Inr \<lparr>selectedTemplateName = None,
          reasoning = ''No templates were available to choose from.'',
          useCase = None, complexity = None, styleSelection = None, projectName = ''''\<rparr> \<and>
   fst (selectTemplate (ex_ai_failing (Error ''timeout'')) ''tok'' ''q'' ex_templates ()) \<noteq>
   fst (selectTemplate (ex_ai_failing (Error ''timeout'')) ''tok'' ''q'' [] ()) \<and>
   getTemplateForQuery ex_sandbox (ex_ai_failing (Error ''timeout'')) ''session-1'' ''tok'' () ''q'' =
     Inl (Error ''No suitable template found for code generation'') \<and>
   fst (startCodeGeneration ex_deps_ai_failing ex_env ex_actors_none
          (ex_request None (Some ''Build a game''))) =
     createErrorResponse
       (Message ''Failed to get template for query: No suitable template found for code generation'')
       500\<close>
proof -
  have ne: "ex_templates \<noteq> []" by (simp add: ex_templates_def)
  have f: "\<forall>a. ex_ai_failing (Error ''timeout'') a = Inl (Error ''timeout'')"
    by (simp add: ex_ai_failing_def)
  have o: "\<not> (instanceof_RateLimitExceededError (Error ''timeout'') \<or>
               instanceof_SecurityError (Error ''timeout''))"
    by simp
  have s: "fst (selectTemplate (ex_ai_failing (Error ''timeout'')) tok q ex_templates ctx) =
     Inr \<lparr>selectedTemplateName = None,
          reasoning = ''An error occurred during the template selection process.'',
          useCase = None, complexity = None, styleSelection = None, projectName = ''''\<rparr>"
    for tok q and ctx :: 'c
    by (rule selectTemplate_ordinary_failure [OF ne f o])
  have e: "fst (selectTemplate (ex_ai_failing (Error ''timeout'')) ''tok'' ''q'' [] ()) =
     Inr \<lparr>selectedTemplateName = None,
          reasoning = ''No templates were available to choose from.'',
          useCase = None, complexity = None, styleSelection = None, projectName = ''''\<rparr>"
    by (simp add: selectTemplate_def)
  have l: "listTemplates ex_sandbox = Inr (Some ex_list)" by (simp add: ex_sandbox_def)
  have ls: "list_success ex_list" by (simp add: ex_list_def)
  have t: "templates ex_list = ex_templates" by (simp add: ex_list_def)
  have c: "getSandboxService ex_sandbox sid = Inr ex_client" for sid
    by (simp add: ex_sandbox_def)
  have g: "getTemplateForQuery ex_sandbox (ex_ai_failing (Error ''timeout'')) sid tok ctx q =
     Inl (Error ''No suitable template found for code generation'')"
    for sid tok q and ctx :: 'c
    by (rule getTemplateForQuery_on_fallback [OF l ls c s [unfolded t [symmetric]]]) simp
  have st: "fst (startCodeGeneration ex_deps_ai_failing ex_env ex_actors_none
          (ex_request None (Some ''Build a game''))) =
     createErrorResponse
       (Message ''Failed to get template for query: No suitable template found for code generation'')
       500"
  proof (rule startCodeGeneration_on_fallback)
    show "json_body (ex_request None (Some ''Build a game'')) =
            Inr \<lparr>query = Some ''Build a game'', language = None, frameworks = None,
                 selectedTemplate = None, agentMode = None\<rparr>"
      by (simp add: ex_request_def)
    show "\<not> falsy (query \<lparr>query = Some ''Build a game'', language = None, frameworks = None,
                 selectedTemplate = None, agentMode = None\<rparr>)"
      by simp
    show "\<forall>u. context_user (ex_request None (Some ''Build a game'')) = Some u \<longrightarrow>
           enforceAppCreationRateLimit ex_deps_ai_failing u = None \<and>
           (\<exists>configs. getUserModelConfigs ex_deps_ai_failing (user_id u) = Inr configs)"
      by (simp add: ex_request_def)
    show "fst (getAgentStub ex_env ex_actors_none (generated_agentId ex_deps_ai_failing) False) =
            Inr (Stub ''agent-1'' direct_options)"
      by (simp add: ex_deps_ai_failing_def ex_deps_def ex_env_def ex_ns_def getAgentStub_def
          getAgentByName_def)
    show "listTemplates (dep_sandbox ex_deps_ai_failing) = Inr (Some ex_list)"
      by (simp add: ex_deps_ai_failing_def ex_deps_def ex_sandbox_def)
    show "list_success ex_list" by (rule ls)
    show "templates ex_list \<noteq> []" by (simp add: t ne)
    show "getSandboxService (dep_sandbox ex_deps_ai_failing)
            (generated_sessionId ex_deps_ai_failing) = Inr ex_client"
      by (simp add: ex_deps_ai_failing_def ex_deps_def ex_sandbox_def)
    show "\<forall>a. executeInference ex_deps_ai_failing a = Inl (Error ''timeout'')"
      by (simp add: ex_deps_ai_failing_def ex_deps_def ex_ai_failing_def)
    show "\<not> (instanceof_RateLimitExceededError (Error ''timeout'') \<or>
             instanceof_SecurityError (Error ''timeout''))"
      by simp
  qed
  from s [of "''tok''" "''q''" "()"] e g [of "''session-1''" "''tok''" "()" "''q''"] st
  show ?thesis by simp
qed

text \<open>
  C4, amended.  With at least one candidate \<^verbatim>\<open>selectTemplate\<close> calls the AI collaborator
  once.  A rate-limit or security error of the collaborator is thrown on unchanged.  On
  any other error, and on a response without an object, \<^verbatim>\<open>selectTemplate\<close> itself does
  not throw: it returns the result of the case without candidates with the reasoning
  text replaced by that of the failure.  The enclosing workflow does not go on with
  that fallback: when the list was reported with success and the sandbox service was
  acquired, \<^verbatim>\<open>getTemplateForQuery\<close> throws on its null name the error that no suitable
  template was found, and for a request that has passed validation, the rate limit and
  the fetching of the configurations and the agent stub, \<^verbatim>\<open>startCodeGeneration\<close>
  answers with status 500 and that error text.
\<close>

theorem selectTemplate_failure_policy:
  \<open>(ts \<noteq> [] \<longrightarrow>
      (\<exists>args. snd (selectTemplate ai tok q ts ctx) = [args] \<and>
         (\<forall>e. ai args = Inl e \<and>
              (instanceof_RateLimitExceededError e \<or> instanceof_SecurityError e) \<longrightarrow>
              fst (selectTemplate ai tok q ts ctx) = Inl e) \<and>
         (\<forall>e. (ai args = Inl e \<and>
               \<not> (instanceof_RateLimitExceededError e \<or> instanceof_SecurityError e)) \<or>
              ai args = Inr None \<longrightarrow>
              (\<exists>r0. fst (selectTemplate ai tok q [] ctx) = Inr r0 \<and>
                    fst (selectTemplate ai tok q ts ctx) =
                      Inr (r0\<lparr>reasoning :=
                             ''An error occurred during the template selection process.''\<rparr>)) \<and>
              (\<forall>resp client.
                 listTemplates sb = Inr (Some resp) \<and> list_success resp \<and>
                 templates resp = ts \<and> getSandboxService sb gid = Inr client \<longrightarrow>
                 getTemplateForQuery sb ai gid tok ctx q =
                   Inl (Error ''No suitable template found for code generation''))))) \<and>
   (\<forall>body e resp client agentInstance.
      json_body request = Inr body \<and> \<not> falsy (query body) \<and>
      (\<forall>u. context_user request = Some u \<longrightarrow>
           enforceAppCreationRateLimit d u = None \<and>
           (\<exists>configs. getUserModelConfigs d (user_id u) = Inr configs)) \<and>
      fst (getAgentStub env w (generated_agentId d) False) = Inr agentInstance \<and>
      listTemplates (dep_sandbox d) = Inr (Some resp) \<and> list_success resp \<and>
      templates resp \<noteq> [] \<and>
      getSandboxService (dep_sandbox d) (generated_sessionId d) = Inr client \<and>
      (\<forall>a. executeInference d a = Inl e) \<and>
      \<not> (instanceof_RateLimitExceededError e \<or> instanceof_SecurityError e) \<longrightarrow>
      fst (startCodeGeneration d env w request) =
        createErrorResponse
          (Message ''Failed to get template for query: No suitable template found for code generation'')
          500)\<close>
proof (intro conjI impI allI)
  assume ne: "ts \<noteq> []"
  let ?args = "\<lparr>messages = [(''system'', systemPrompt), (''user'', userPrompt q ts tok)],
                agentActionName = ''templateSelection'',
                inf_context = ctx, maxTokens = 2000\<rparr>"
  have calls: "snd (selectTemplate ai tok q ts ctx) = [?args]"
    using ne by (simp add: selectTemplate_def Let_def split: sum.splits)
  have thrown: "fst (selectTemplate ai tok q ts ctx) = Inl e"
    if "ai ?args = Inl e \<and>
        (instanceof_RateLimitExceededError e \<or> instanceof_SecurityError e)" for e
    using ne that by (auto simp: selectTemplate_def inference_attempt_def Let_def)
  have fallback: "fst (selectTemplate ai tok q ts ctx) =
        Inr \<lparr>selectedTemplateName = None,
             reasoning = ''An error occurred during the template selection process.'',
             useCase = None, complexity = None, styleSelection = None, projectName = ''''\<rparr>"
    if "(ai ?args = Inl e \<and>
         \<not> (instanceof_RateLimitExceededError e \<or> instanceof_SecurityError e)) \<or>
        ai ?args = Inr None" for e
    using ne that by (auto simp: selectTemplate_def inference_attempt_def Let_def)
  have empty: "fst (selectTemplate ai tok q [] ctx) =
        Inr \<lparr>selectedTemplateName = None,
             reasoning = ''No templates were available to choose from.'',
             useCase = None, complexity = None, styleSelection = None, projectName = ''''\<rparr>"
    by (simp add: selectTemplate_def)
  have shape: "\<exists>r0. fst (selectTemplate ai tok q [] ctx) = Inr r0 \<and>
                    fst (selectTemplate ai tok q ts ctx) =
                      Inr (r0\<lparr>reasoning :=
                             ''An error occurred during the template selection process.''\<rparr>)"
    if "(ai ?args = Inl e \<and>
         \<not> (instanceof_RateLimitExceededError e \<or> instanceof_SecurityError e)) \<or>
        ai ?args = Inr None" for e
    using fallback [OF that] empty by simp
  have aborts: "getTemplateForQuery sb ai gid tok ctx q =
                   Inl (Error ''No suitable template found for code generation'')"
    if f: "(ai ?args = Inl e \<and>
         \<not> (instanceof_RateLimitExceededError e \<or> instanceof_SecurityError e)) \<or>
        ai ?args = Inr None"
      and s: "listTemplates sb = Inr (Some resp) \<and> list_success resp \<and>
                 templates resp = ts \<and> getSandboxService sb gid = Inr client"
    for e resp client
  proof -
    from s have 1: "listTemplates sb = Inr (Some resp)" and 2: "list_success resp"
      and 3: "getSandboxService sb gid = Inr client" and 4: "templates resp = ts"
      by simp_all
    from fallback [OF f] 4
    have 5: "fst (selectTemplate ai tok q (templates resp) ctx) =
        Inr \<lparr>selectedTemplateName = None,
             reasoning = ''An error occurred during the template selection process.'',
             useCase = None, complexity = None, styleSelection = None, projectName = ''''\<rparr>"
      by simp
    show ?thesis
      by (rule getTemplateForQuery_on_fallback [OF 1 2 3 5]) simp
  qed
  from calls thrown shape aborts
  show "\<exists>args. snd (selectTemplate ai tok q ts ctx) = [args] \<and>
         (\<forall>e. ai args = Inl e \<and>
              (instanceof_RateLimitExceededError e \<or> instanceof_SecurityError e) \<longrightarrow>
              fst (selectTemplate ai tok q ts ctx) = Inl e) \<and>
         (\<forall>e. (ai args = Inl e \<and>
               \<not> (instanceof_RateLimitExceededError e \<or> instanceof_SecurityError e)) \<or>
              ai args = Inr None \<longrightarrow>
              (\<exists>r0. fst (selectTemplate ai tok q [] ctx) = Inr r0 \<and>
                    fst (selectTemplate ai tok q ts ctx) =
                      Inr (r0\<lparr>reasoning :=
                             ''An error occurred during the template selection process.''\<rparr>)) \<and>
              (\<forall>resp client.
                 listTemplates sb = Inr (Some resp) \<and> list_success resp \<and>
                 templates resp = ts \<and> getSandboxService sb gid = Inr client \<longrightarrow>
                 getTemplateForQuery sb ai gid tok ctx q =
                   Inl (Error ''No suitable template found for code generation'')))"
    by blast
next
  fix body e resp client agentInstance
  assume a: "json_body request = Inr body \<and> \<not> falsy (query body) \<and>
      (\<forall>u. context_user request = Some u \<longrightarrow>
           enforceAppCreationRateLimit d u = None \<and>
           (\<exists>configs. getUserModelConfigs d (user_id u) = Inr configs)) \<and>
      fst (getAgentStub env w (generated_agentId d) False) = Inr agentInstance \<and>
      listTemplates (dep_sandbox d) = Inr (Some resp) \<and> list_success resp \<and>
      templates resp \<noteq> [] \<and>
      getSandboxService (dep_sandbox d) (generated_sessionId d) = Inr client \<and>
      (\<forall>a. executeInference d a = Inl e) \<and>
      \<not> (instanceof_RateLimitExceededError e \<or> instanceof_SecurityError e)"
  then show "fst (startCodeGeneration d env w request) =
        createErrorResponse
          (Message ''Failed to get template for query: No suitable template found for code generation'')
          500"
    by (intro startCodeGeneration_on_fallback [of request body d env w agentInstance resp client e])
      simp_all
qed

theorem selectTemplate_failure_policy_witness:
  \<open>fst (selectTemplate (ex_ai_failing (RateLimitExceededError ''slow down'')) ''tok'' ''q''
          ex_templates ()) = Inl (RateLimitExceededError ''slow down'') \<and>
   fst (selectTemplate (ex_ai_failing (Error ''timeout'')) ''tok'' ''q'' ex_templates ()) =
     Inr \<lparr>selectedTemplateName = None,
          reasoning = ''An error occurred during the template selection process.'',
          useCase = None, complexity = None, styleSelection = None, projectName = ''''\<rparr> \<and>
   getTemplateForQuery ex_sandbox (ex_ai_failing (Error ''timeout'')) ''session-1'' ''tok'' () ''q'' =
     Inl (Error ''No suitable template found for code generation'') \<and>
   fst (startCodeGeneration ex_deps_ai_failing ex_env ex_actors_none
          (ex_request (Some (ex_user ''ann'')) (Some ''Build a game''))) =
     createErrorResponse
       (Message ''Failed to get template for query: No suitable template found for code generation'')
       500\<close>
proof -
  let ?rl = "ex_ai_failing (RateLimitExceededError ''slow down'') :: unit inference"
  let ?to = "ex_ai_failing (Error ''timeout'') :: unit inference"
  let ?r = "ex_request (Some (ex_user ''ann'')) (Some ''Build a game'')"
  have ne: "ex_templates \<noteq> []" by (simp add: ex_templates_def)
  have e0: "fst (selectTemplate ?to ''tok'' ''q'' [] ()) =
      Inr \<lparr>selectedTemplateName = None,
          reasoning = ''No templates were available to choose from.'',
          useCase = None, complexity = None, styleSelection = None, projectName = ''''\<rparr>"
    by (simp add: selectTemplate_def)
  have sb: "listTemplates ex_sandbox = Inr (Some ex_list) \<and> list_success ex_list \<and>
            templates ex_list = ex_templates \<and>
            getSandboxService ex_sandbox ''session-1'' = Inr ex_client"
    by (simp add: ex_sandbox_def ex_list_def)
  note p1 = selectTemplate_failure_policy
    [where ts = ex_templates and ai = ?rl and tok = "''tok''" and q = "''q''" and ctx = "()"
       and sb = ex_sandbox and gid = "''session-1''"
       and request = ?r and d = ex_deps_ai_failing and env = ex_env and w = ex_actors_none]
  note p2 = selectTemplate_failure_policy
    [where ts = ex_templates and ai = ?to and tok = "''tok''" and q = "''q''" and ctx = "()"
       and sb = ex_sandbox and gid = "''session-1''"
       and request = ?r and d = ex_deps_ai_failing and env = ex_env and w = ex_actors_none]
  from p1 [THEN conjunct1] ne
  have a: "fst (selectTemplate ?rl ''tok'' ''q'' ex_templates ()) =
             Inl (RateLimitExceededError ''slow down'')"
    by (auto simp: ex_ai_failing_def)
  from p2 [THEN conjunct1] ne
  obtain args where args: "snd (selectTemplate ?to ''tok'' ''q'' ex_templates ()) = [args]"
    and fb: "\<forall>e. (?to args = Inl e \<and>
               \<not> (instanceof_RateLimitExceededError e \<or> instanceof_SecurityError e)) \<or>
              ?to args = Inr None \<longrightarrow>
              (\<exists>r0. fst (selectTemplate ?to ''tok'' ''q'' [] ()) = Inr r0 \<and>
                    fst (selectTemplate ?to ''tok'' ''q'' ex_templates ()) =
                      Inr (r0\<lparr>reasoning :=
                             ''An error occurred during the template selection process.''\<rparr>)) \<and>
              (\<forall>resp client.
                 listTemplates ex_sandbox = Inr (Some resp) \<and> list_success resp \<and>
                 templates resp = ex_templates \<and>
                 getSandboxService ex_sandbox ''session-1'' = Inr client \<longrightarrow>
                 getTemplateForQuery ex_sandbox ?to ''session-1'' ''tok'' () ''q'' =
                   Inl (Error ''No suitable template found for code generation''))"
    by blast
  have fails: "(?to args = Inl (Error ''timeout'') \<and>
               \<not> (instanceof_RateLimitExceededError (Error ''timeout'') \<or>
                  instanceof_SecurityError (Error ''timeout''))) \<or>
              ?to args = Inr None"
    by (simp add: ex_ai_failing_def)
  from fb [rule_format, OF fails] e0
  have b: "fst (selectTemplate ?to ''tok'' ''q'' ex_templates ()) =
     Inr \<lparr>selectedTemplateName = None,
          reasoning = ''An error occurred during the template selection process.'',
          useCase = None, complexity = None, styleSelection = None, projectName = ''''\<rparr>"
    by auto
  from fb [rule_format, OF fails] sb
  have c: "getTemplateForQuery ex_sandbox ?to ''session-1'' ''tok'' () ''q'' =
     Inl (Error ''No suitable template found for code generation'')"
    by blast
  let ?body = "\<lparr>query = Some ''Build a game'', language = None, frameworks = None,
                 selectedTemplate = None, agentMode = None\<rparr>"
  have h: "json_body ?r = Inr ?body \<and> \<not> falsy (query ?body) \<and>
      (\<forall>u. context_user ?r = Some u \<longrightarrow>
           enforceAppCreationRateLimit ex_deps_ai_failing u = None \<and>
           (\<exists>configs. getUserModelConfigs ex_deps_ai_failing (user_id u) = Inr configs)) \<and>
      fst (getAgentStub ex_env ex_actors_none (generated_agentId ex_deps_ai_failing) False) =
        Inr (Stub ''agent-1'' direct_options) \<and>
      listTemplates (dep_sandbox ex_deps_ai_failing) = Inr (Some ex_list) \<and> list_success ex_list \<and>
      templates ex_list \<noteq> [] \<and>
      getSandboxService (dep_sandbox ex_deps_ai_failing) (generated_sessionId ex_deps_ai_failing) =
        Inr ex_client \<and>
      (\<forall>a. executeInference ex_deps_ai_failing a = Inl (Error ''timeout'')) \<and>
      \<not> (instanceof_RateLimitExceededError (Error ''timeout'') \<or>
         instanceof_SecurityError (Error ''timeout''))"
    by (simp add: ex_request_def ex_deps_ai_failing_def ex_deps_def ex_user_def ex_env_def
        ex_ns_def getAgentStub_def getAgentByName_def ex_sandbox_def ex_list_def
        ex_templates_def ex_ai_failing_def)
  from p2 [THEN conjunct2, rule_format, OF h]
  have s: "fst (startCodeGeneration ex_deps_ai_failing ex_env ex_actors_none ?r) =
     createErrorResponse
       (Message ''Failed to get template for query: No suitable template found for code generation'')
       500" .
  from a b c s show ?thesis by simp
qed

section \<open>Properties of getTemplateForQuery\<close>

lemmas ex_template_simps =
  ex_sandbox_def ex_sandbox_empty_def ex_sandbox_empty_with_text_def ex_sandbox_failed_def ex_sandbox_no_details_def
  ex_list_def ex_templates_def ex_client_def ex_client_failing_def
  ex_ai_def ex_ai_failing_def ex_selection_def

lemma ex_select:
  "fst (selectTemplate (ex_ai n) tok q (templates ex_list) ctx) = Inr (ex_selection n)"
  by (simp add: selectTemplate_def inference_attempt_def ex_ai_def ex_list_def ex_templates_def)

lemma find_name_Some:
  "find (\<lambda>t. Some (tpl_name t) = n) ts = Some t \<Longrightarrow> t \<in> set ts \<and> n = Some (tpl_name t)"
  by (auto simp: find_Some_iff)

lemma find_name_None:
  "n \<notin> Some ` tpl_name ` set ts \<Longrightarrow> find (\<lambda>t. Some (tpl_name t) = n) ts = None"
  by (auto simp: find_None_iff)

text \<open>
  C1.  Let the template list call return a list of candidates and \<^verbatim>\<open>selectTemplate\<close>
  return a selection.  If the selected name is null, \<^verbatim>\<open>getTemplateForQuery\<close> throws;
  if the selected name is the name of no candidate, it throws; and whenever it returns,
  it returns that selection, and the selected name is the name of a candidate.  When the
  list was reported with success and the sandbox service was acquired, what is thrown is
  the error that no suitable template was found, for a null or empty name, and the
  error that the selected template was not found, for any other name of no candidate.
\<close>

theorem getTemplateForQuery_validates_selection:
  assumes lst: "listTemplates sb = Inr (Some resp)"
    and sel: "fst (selectTemplate ai tok q (templates resp) ctx) = Inr sel"
  shows "(selectedTemplateName sel = None \<longrightarrow> isl (getTemplateForQuery sb ai gid tok ctx q)) \<and>
         (selectedTemplateName sel \<notin> Some ` tpl_name ` set (templates resp) \<longrightarrow>
            isl (getTemplateForQuery sb ai gid tok ctx q)) \<and>
         (\<forall>r. getTemplateForQuery sb ai gid tok ctx q = Inr r \<longrightarrow>
              res_selection r = sel \<and>
              (\<exists>t \<in> set (templates resp). selectedTemplateName sel = Some (tpl_name t))) \<and>
         (\<forall>client. list_success resp \<and> getSandboxService sb gid = Inr client \<longrightarrow>
            (falsy (selectedTemplateName sel) \<longrightarrow>
               getTemplateForQuery sb ai gid tok ctx q =
                 Inl (Error ''No suitable template found for code generation'')) \<and>
            (\<forall>n. selectedTemplateName sel = Some n \<and> n \<noteq> [] \<and>
                  n \<notin> tpl_name ` set (templates resp) \<longrightarrow>
               getTemplateForQuery sb ai gid tok ctx q =
                 Inl (Error (''Selected template '' @ [CHR 0x27] @ n @ [CHR 0x27] @
                             '' not found in available templates''))))"
proof (intro conjI allI impI)
  assume "selectedTemplateName sel = None"
  with lst sel show "isl (getTemplateForQuery sb ai gid tok ctx q)"
    by (simp add: getTemplateForQuery_def split: sum.splits)
next
  assume "selectedTemplateName sel \<notin> Some ` tpl_name ` set (templates resp)"
  from find_name_None [OF this] lst sel show "isl (getTemplateForQuery sb ai gid tok ctx q)"
    by (simp add: getTemplateForQuery_def split: sum.splits)
next
  fix r assume r: "getTemplateForQuery sb ai gid tok ctx q = Inr r"
  with lst sel show "res_selection r = sel"
    by (auto simp: getTemplateForQuery_def split: sum.splits if_splits option.splits bool.splits)
  from r lst sel
  obtain t where "find (\<lambda>t. Some (tpl_name t) = selectedTemplateName sel) (templates resp) = Some t"
    by (auto simp: getTemplateForQuery_def split: sum.splits if_splits option.splits)
  from find_name_Some [OF this]
  show "\<exists>t \<in> set (templates resp). selectedTemplateName sel = Some (tpl_name t)" by blast
next
  fix client
  assume c: "list_success resp \<and> getSandboxService sb gid = Inr client"
    and "falsy (selectedTemplateName sel)"
  with lst sel show "getTemplateForQuery sb ai gid tok ctx q =
                 Inl (Error ''No suitable template found for code generation'')"
    by (simp add: getTemplateForQuery_def)
next
  fix client n
  assume c: "list_success resp \<and> getSandboxService sb gid = Inr client"
    and n: "selectedTemplateName sel = Some n \<and> n \<noteq> [] \<and> n \<notin> tpl_name ` set (templates resp)"
  then have "selectedTemplateName sel \<notin> Some ` tpl_name ` set (templates resp)" by auto
  from find_name_None [OF this] lst sel c n
  show "getTemplateForQuery sb ai gid tok ctx q =
                 Inl (Error (''Selected template '' @ [CHR 0x27] @ n @ [CHR 0x27] @
                             '' not found in available templates''))"
    by (simp add: getTemplateForQuery_def)
qed

theorem getTemplateForQuery_validates_selection_witness:
  "isl (getTemplateForQuery ex_sandbox (ex_ai None) ''session-1'' ''tok'' () ''Build a game'') \<and>
   isl (getTemplateForQuery ex_sandbox (ex_ai (Some ''angular-todo'')) ''session-1'' ''tok'' ()
          ''Build a game'') \<and>
   getTemplateForQuery ex_sandbox (ex_ai (Some ''react-game-starter'')) ''session-1'' ''tok'' ()
     ''Build a game'' =
     Inr \<lparr>res_sandboxSessionId = ''session-1'',
          res_templateDetails =
            \<lparr>td_name = ''react-game-starter'',
             td_files = Some [''package.json'', ''src/main.tsx'']\<rparr>,
          res_selection = ex_selection (Some ''react-game-starter'')\<rparr>"
proof -
  have l: "listTemplates ex_sandbox = Inr (Some ex_list)" by (simp add: ex_sandbox_def)
  have n1: "selectedTemplateName (ex_selection None) = None" by (simp add: ex_selection_def)
  have n2: "selectedTemplateName (ex_selection (Some ''angular-todo'')) \<notin>
              Some ` tpl_name ` set (templates ex_list)"
    by (simp add: ex_selection_def ex_list_def ex_templates_def)
  have s1: "fst (selectTemplate (ex_ai None) ''tok'' ''Build a game'' (templates ex_list) ()) =
              Inr (ex_selection None)"
    by (rule ex_select)
  have s2: "fst (selectTemplate (ex_ai (Some ''angular-todo'')) ''tok'' ''Build a game''
                   (templates ex_list) ()) = Inr (ex_selection (Some ''angular-todo''))"
    by (rule ex_select)
  have s3: "fst (selectTemplate (ex_ai (Some ''react-game-starter'')) ''tok'' ''Build a game''
                   (templates ex_list) ()) = Inr (ex_selection (Some ''react-game-starter''))"
    by (rule ex_select)
  from getTemplateForQuery_validates_selection [OF l s1, of "''session-1''"] n1
  have a: "isl (getTemplateForQuery ex_sandbox (ex_ai None) ''session-1'' ''tok'' () ''Build a game'')"
    by blast
  from getTemplateForQuery_validates_selection [OF l s2, of "''session-1''"] n2
  have b: "isl (getTemplateForQuery ex_sandbox (ex_ai (Some ''angular-todo'')) ''session-1'' ''tok'' ()
          ''Build a game'')"
    by blast
  have c: "getTemplateForQuery ex_sandbox (ex_ai (Some ''react-game-starter'')) ''session-1'' ''tok'' ()
     ''Build a game'' =
     Inr \<lparr>res_sandboxSessionId = ''session-1'',
          res_templateDetails =
            \<lparr>td_name = ''react-game-starter'',
             td_files = Some [''package.json'', ''src/main.tsx'']\<rparr>,
          res_selection = ex_selection (Some ''react-game-starter'')\<rparr>"
    unfolding getTemplateForQuery_def
    by (simp add: l s3 [simplified]) (simp add: ex_template_simps)
  from a b c show ?thesis by simp
qed

lemma embeds_append: "embeds t (pre @ t)"
  by (induction pre) (cases t, simp_all)

text \<open>
  C7, as stated, fails: a template list that is reported with success and is empty does
  not make the operation fail with a fetch failure.  \<^verbatim>\<open>selectTemplate\<close> answers the
  empty list with no selection, and the operation fails with the error that no suitable
  template was found, whose message is not that of a fetch failure and has no upstream
  error text in it, also when the response carries one.
\<close>

theorem getTemplateForQuery_empty_list:
  "getTemplateForQuery ex_sandbox_empty (ex_ai (Some ''react-game-starter'')) ''session-1'' ''tok'' ()
     ''Build a game'' = Inl (Error ''No suitable template found for code generation'') \<and>
   getTemplateForQuery ex_sandbox_empty (ex_ai (Some ''react-game-starter'')) ''session-1'' ''tok'' ()
     ''Build a game'' \<noteq>
     Inl (Error ''Failed to fetch templates from sandbox service: Unknown error'') \<and>
   getTemplateForQuery ex_sandbox_empty_with_text (ex_ai (Some ''react-game-starter''))
     ''session-1'' ''tok'' () ''Build a game'' =
     Inl (Error ''No suitable template found for code generation'') \<and>
   \<not> embeds ''boom'' ''No suitable template found for code generation''"
  by (simp add: getTemplateForQuery_def selectTemplate_def ex_sandbox_empty_def
      ex_sandbox_empty_with_text_def)

text \<open>
  C7, amended.  When the template list call returns nothing or does not report success,
  the operation fails with the error \<open>Failed to fetch templates from sandbox service\<close>
  followed by the upstream error text, or by \<open>Unknown error\<close> when there is none.  When
  the details call for the chosen template does not report success or returns no
  details, it fails with the error \<open>Failed to fetch template details\<close> followed by the
  upstream error text, or by \<open>Unknown error\<close>.  In both cases an upstream error text
  occurs in the message.  When the list is reported with success and is empty and the
  sandbox service is acquired, it fails with the error that no suitable template was
  found.
\<close>

theorem getTemplateForQuery_fetch_failures:
  "(listTemplates sb = Inr None \<longrightarrow>
      getTemplateForQuery sb ai gid tok ctx q =
        Inl (Error ''Failed to fetch templates from sandbox service: Unknown error'')) \<and>
   (\<forall>resp. listTemplates sb = Inr (Some resp) \<and> \<not> list_success resp \<longrightarrow>
      getTemplateForQuery sb ai gid tok ctx q =
        Inl (Error (''Failed to fetch templates from sandbox service: '' @
                    or_else (list_error resp) ''Unknown error'')) \<and>
      (\<forall>msg. list_error resp = Some msg \<longrightarrow>
         (\<exists>e. getTemplateForQuery sb ai gid tok ctx q = Inl e \<and> embeds msg (error_text e)))) \<and>
   (\<forall>resp sel client t dr.
      listTemplates sb = Inr (Some resp) \<and> list_success resp \<and>
      fst (selectTemplate ai tok q (templates resp) ctx) = Inr sel \<and>
      getSandboxService sb gid = Inr client \<and>
      \<not> falsy (selectedTemplateName sel) \<and>
      find (\<lambda>t. Some (tpl_name t) = selectedTemplateName sel) (templates resp) = Some t \<and>
      client (tpl_name t) = Inr dr \<and>
      (\<not> details_success dr \<or> templateDetails dr = None) \<longrightarrow>
      getTemplateForQuery sb ai gid tok ctx q =
        Inl (Error (''Failed to fetch template details: '' @
                    or_else (details_error dr) ''Unknown error'')) \<and>
      (\<forall>msg. details_error dr = Some msg \<longrightarrow>
         (\<exists>e. getTemplateForQuery sb ai gid tok ctx q = Inl e \<and> embeds msg (error_text e)))) \<and>
   (\<forall>resp client.
      listTemplates sb = Inr (Some resp) \<and> list_success resp \<and> templates resp = [] \<and>
      getSandboxService sb gid = Inr client \<longrightarrow>
      getTemplateForQuery sb ai gid tok ctx q =
        Inl (Error ''No suitable template found for code generation''))"
proof (intro conjI allI impI)
  assume "listTemplates sb = Inr None"
  then show "getTemplateForQuery sb ai gid tok ctx q =
        Inl (Error ''Failed to fetch templates from sandbox service: Unknown error'')"
    by (simp add: getTemplateForQuery_def)
next
  fix resp assume a: "listTemplates sb = Inr (Some resp) \<and> \<not> list_success resp"
  then show r: "getTemplateForQuery sb ai gid tok ctx q =
        Inl (Error (''Failed to fetch templates from sandbox service: '' @
                    or_else (list_error resp) ''Unknown error''))"
    by (simp add: getTemplateForQuery_def)
  fix msg assume m: "list_error resp = Some msg"
  have "embeds msg (''Failed to fetch templates from sandbox service: '' @
                    or_else (list_error resp) ''Unknown error'')"
  proof (cases "msg = []")
    case True
    then show ?thesis by simp
  next
    case False
    with m show ?thesis by (simp only: or_else.simps if_False embeds_append)
  qed
  with r show "\<exists>e. getTemplateForQuery sb ai gid tok ctx q = Inl e \<and> embeds msg (error_text e)"
    by simp
next
  fix resp sel client t dr
  assume a: "listTemplates sb = Inr (Some resp) \<and> list_success resp \<and>
      fst (selectTemplate ai tok q (templates resp) ctx) = Inr sel \<and>
      getSandboxService sb gid = Inr client \<and>
      \<not> falsy (selectedTemplateName sel) \<and>
      find (\<lambda>t. Some (tpl_name t) = selectedTemplateName sel) (templates resp) = Some t \<and>
      client (tpl_name t) = Inr dr \<and>
      (\<not> details_success dr \<or> templateDetails dr = None)"
  then show d: "getTemplateForQuery sb ai gid tok ctx q =
        Inl (Error (''Failed to fetch template details: '' @
                    or_else (details_error dr) ''Unknown error''))"
    by (auto simp: getTemplateForQuery_def split: option.splits bool.splits)
  fix msg assume m: "details_error dr = Some msg"
  have "embeds msg (''Failed to fetch template details: '' @
                    or_else (details_error dr) ''Unknown error'')"
  proof (cases "msg = []")
    case True
    then show ?thesis by simp
  next
    case False
    with m show ?thesis by (simp only: or_else.simps if_False embeds_append)
  qed
  with d show "\<exists>e. getTemplateForQuery sb ai gid tok ctx q = Inl e \<and> embeds msg (error_text e)"
    by simp
next
  fix resp client
  assume "listTemplates sb = Inr (Some resp) \<and> list_success resp \<and> templates resp = [] \<and>
      getSandboxService sb gid = Inr client"
  then show "getTemplateForQuery sb ai gid tok ctx q =
        Inl (Error ''No suitable template found for code generation'')"
    by (simp add: getTemplateForQuery_def selectTemplate_def)
qed

theorem getTemplateForQuery_fetch_failures_witness:
  "getTemplateForQuery ex_sandbox_failed (ex_ai (Some ''react-game-starter'')) ''session-1'' ''tok'' ()
     ''Build a game'' = Inl (Error ''Failed to fetch templates from sandbox service: boom'') \<and>
   getTemplateForQuery ex_sandbox_no_details (ex_ai (Some ''react-game-starter'')) ''session-1'' ''tok'' ()
     ''Build a game'' = Inl (Error ''Failed to fetch template details: not in catalogue'')"
proof -
  let ?ai = "ex_ai (Some ''react-game-starter'') :: unit inference"
  let ?resp = "\<lparr>list_success = False, templates = [], list_error = Some ''boom''\<rparr>"
  let ?t = "\<lparr>tpl_name = ''react-game-starter'', tpl_language = Some ''typescript'',
       tpl_frameworks = Some [''react'', ''vite''], description_selection = ''Canvas games''\<rparr>"
  let ?dr = "\<lparr>details_success = False, templateDetails = None :: string TemplateDetails option,
       details_error = Some ''not in catalogue''\<rparr>"
  have f: "listTemplates ex_sandbox_failed = Inr (Some ?resp) \<and> \<not> list_success ?resp"
    by (simp add: ex_sandbox_failed_def)
  from getTemplateForQuery_fetch_failures
    [of ex_sandbox_failed ?ai "''session-1''" "''tok''" "()" "''Build a game''"]
  have "\<forall>resp. listTemplates ex_sandbox_failed = Inr (Some resp) \<and> \<not> list_success resp \<longrightarrow>
      getTemplateForQuery ex_sandbox_failed ?ai ''session-1'' ''tok'' () ''Build a game'' =
        Inl (Error (''Failed to fetch templates from sandbox service: '' @
                    or_else (list_error resp) ''Unknown error''))"
    by blast
  with f have a: "getTemplateForQuery ex_sandbox_failed ?ai ''session-1'' ''tok'' () ''Build a game'' =
        Inl (Error (''Failed to fetch templates from sandbox service: '' @
                    or_else (list_error ?resp) ''Unknown error''))"
    by blast
  have d: "listTemplates ex_sandbox_no_details = Inr (Some ex_list) \<and> list_success ex_list \<and>
      fst (selectTemplate ?ai ''tok'' ''Build a game'' (templates ex_list) ()) =
        Inr (ex_selection (Some ''react-game-starter'')) \<and>
      getSandboxService ex_sandbox_no_details ''session-1'' = Inr ex_client_failing \<and>
      \<not> falsy (selectedTemplateName (ex_selection (Some ''react-game-starter''))) \<and>
      find (\<lambda>t. Some (tpl_name t) = selectedTemplateName (ex_selection (Some ''react-game-starter'')))
        (templates ex_list) = Some ?t \<and>
      ex_client_failing (tpl_name ?t) = Inr ?dr \<and>
      (\<not> details_success ?dr \<or> templateDetails ?dr = None)"
    by (simp add: ex_select) (simp add: ex_template_simps)
  from getTemplateForQuery_fetch_failures
    [of ex_sandbox_no_details ?ai "''session-1''" "''tok''" "()" "''Build a game''"]
  have "\<forall>resp sel client t dr.
      listTemplates ex_sandbox_no_details = Inr (Some resp) \<and> list_success resp \<and>
      fst (selectTemplate ?ai ''tok'' ''Build a game'' (templates resp) ()) = Inr sel \<and>
      getSandboxService ex_sandbox_no_details ''session-1'' = Inr client \<and>
      \<not> falsy (selectedTemplateName sel) \<and>
      find (\<lambda>t. Some (tpl_name t) = selectedTemplateName sel) (templates resp) = Some t \<and>
      client (tpl_name t) = Inr dr \<and>
      (\<not> details_success dr \<or> templateDetails dr = None) \<longrightarrow>
      getTemplateForQuery ex_sandbox_no_details ?ai ''session-1'' ''tok'' () ''Build a game'' =
        Inl (Error (''Failed to fetch template details: '' @
                    or_else (details_error dr) ''Unknown error''))"
    by blast
  from this [rule_format, OF d]
  have b: "getTemplateForQuery ex_sandbox_no_details ?ai ''session-1'' ''tok'' () ''Build a game'' =
        Inl (Error (''Failed to fetch template details: '' @
                    or_else (details_error ?dr) ''Unknown error''))" .
  from a b show ?thesis by simp
qed

section \<open>Properties of the controller\<close>

lemma rate_limit_step_anonymous: "rate_limit_step d None = (None, [])"
  by (simp add: rate_limit_step_def)

lemma fetch_configs_and_stub_effects:
  "EnforceAppCreationRateLimit u \<notin> set (snd (fetch_configs_and_stub d env w usr))"
  by (auto simp: fetch_configs_and_stub_def Let_def split: sum.splits option.splits prod.splits)

text \<open>
  C8.  Actor resolution is attempted for a request that has an agent identifier, the
  upgrade header and a valid origin, and that the routing facility has declined.  When
  it fails, the handler does not throw: it returns a response with status 101 and the
  client end of a socket pair whose server end was accepted, was sent one message, the
  JSON text of an object with the error type and the error text, and was then closed
  with the code 1011.
\<close>

theorem handleWebSocketConnection_resolution_failure:
  assumes "path_agentId request = Some chatId" and "chatId \<noteq> []"
    and "headers request ''upgrade'' = Some ''websocket''"
    and "validateWebSocketOrigin d request"
    and "routeAgentRequest d request = Inr None"
    and "fst (getAgentStub env w chatId True) = Inl e"
  shows "handleWebSocketConnection d env w request =
           Inr (WebSocketResponse 101
                  [Accept,
                   Send (JSON_stringify
                           [(''type'', ws_ERROR d),
                            (''error'', ''Failed to get agent instance: '' @ error_text e)]),
                   Close 1011 ''Agent instance not found''])"
  using assms
  by (simp add: handleWebSocketConnection_def websocket_error_response_def)

theorem handleWebSocketConnection_resolution_failure_witness:
  \<open>handleWebSocketConnection ex_deps ex_env_unavailable ex_actors_none (ex_request None None) =
     Inr (WebSocketResponse 101
            [Accept,
             Send ''{"type":"error","error":"Failed to get agent instance: CodeGenObject namespace not available in environment"}'',
             Close 1011 ''Agent instance not found''])\<close>
proof -
  have 1: "path_agentId (ex_request None None) = Some ''agent-1''" by (simp add: ex_request_def)
  have 2: "''agent-1'' \<noteq> []" by simp
  have 3: "headers (ex_request None None) ''upgrade'' = Some ''websocket''"
    by (simp add: ex_request_def)
  have 4: "validateWebSocketOrigin ex_deps (ex_request None None)" by (simp add: ex_deps_def)
  have 5: "routeAgentRequest ex_deps (ex_request None None) = Inr None" by (simp add: ex_deps_def)
  have 6: "fst (getAgentStub ex_env_unavailable ex_actors_none ''agent-1'' True) =
      Inl (Error ''CodeGenObject namespace not available in environment'')"
    by (simp add: getAgentStub_def ex_env_unavailable_def)
  have 7: "ws_ERROR ex_deps = ''error''" by (simp add: ex_deps_def)
  have 8: \<open>JSON_stringify
             [(''type'', ''error''),
              (''error'', ''Failed to get agent instance: CodeGenObject namespace not available in environment'')] =
           ''{"type":"error","error":"Failed to get agent instance: CodeGenObject namespace not available in environment"}''\<close>
    by (simp add: JSON_stringify_def json_string_def json_escape_def)
  from handleWebSocketConnection_resolution_failure [OF 1 2 3 4 5 6] 7 8
  show ?thesis by simp
qed

text \<open>
  C9, as stated, fails: a request with an authenticated user whose body has no
  \<^verbatim>\<open>query\<close> field is answered with status 400 before the rate limit is looked at, so
  the check is not applied to it.
\<close>

theorem startCodeGeneration_invalid_body_skips_rate_limit:
  "context_user (ex_request (Some (ex_user ''ann'')) None) = Some (ex_user ''ann'') \<and>
   startCodeGeneration ex_deps ex_env ex_actors_none (ex_request (Some (ex_user ''ann'')) None) =
     (createErrorResponse (Message ''Missing \"query\" field in request body'') 400, [])"
  by (simp add: startCodeGeneration_def ex_request_def)

text \<open>
  C9, amended.  For a request whose body parses and has a \<^verbatim>\<open>query\<close> that is not empty:
  if the context has a user, the rate-limit check for that user is the first thing the
  handler does, and when the check fails the handler returns an error response with
  status 429, having generated no identifier, asked for no agent stub and initialized no
  agent.  For every request without a user, no rate-limit check is made at all.
\<close>

theorem startCodeGeneration_rate_limit:
  "(\<forall>body u. json_body request = Inr body \<and> \<not> falsy (query body) \<and>
             context_user request = Some u \<longrightarrow>
      (\<exists>rest. snd (startCodeGeneration d env w request) = EnforceAppCreationRateLimit u # rest) \<and>
      (\<forall>e. enforceAppCreationRateLimit d u = Some e \<longrightarrow>
         startCodeGeneration d env w request =
           (createErrorResponse
              (if instanceof_Error e then ErrorObject e else Message (stringify_thrown d e)) 429,
            [EnforceAppCreationRateLimit u]))) \<and>
   (context_user request = None \<longrightarrow>
      (\<forall>u. EnforceAppCreationRateLimit u \<notin> set (snd (startCodeGeneration d env w request))))"
proof (intro conjI allI impI)
  fix body u
  assume a: "json_body request = Inr body \<and> \<not> falsy (query body) \<and> context_user request = Some u"
  then show "\<exists>rest. snd (startCodeGeneration d env w request) = EnforceAppCreationRateLimit u # rest"
    by (auto simp: startCodeGeneration_def rate_limit_step_def Let_def
        split: sum.splits option.splits prod.splits)
  fix e assume "enforceAppCreationRateLimit d u = Some e"
  with a show "startCodeGeneration d env w request =
           (createErrorResponse
              (if instanceof_Error e then ErrorObject e else Message (stringify_thrown d e)) 429,
            [EnforceAppCreationRateLimit u])"
    by (simp add: startCodeGeneration_def rate_limit_step_def)
next
  fix u
  assume "context_user request = None"
  then show "EnforceAppCreationRateLimit u \<notin> set (snd (startCodeGeneration d env w request))"
    using fetch_configs_and_stub_effects [of u d env w None]
    by (auto simp: startCodeGeneration_def rate_limit_step_anonymous Let_def
        split: sum.splits option.splits prod.splits)
qed

theorem startCodeGeneration_rate_limit_witness:
  "startCodeGeneration ex_deps ex_env ex_actors_none
     (ex_request (Some (ex_user ''limited'')) (Some ''Build a game'')) =
     (createErrorResponse (ErrorObject (RateLimitExceededError ''Rate limit exceeded'')) 429,
      [EnforceAppCreationRateLimit (ex_user ''limited'')]) \<and>
   EnforceAppCreationRateLimit (ex_user ''ann'') \<notin>
     set (snd (startCodeGeneration ex_deps ex_env ex_actors_none
                 (ex_request None (Some ''Build a game''))))"
proof -
  let ?body = "\<lparr>query = Some ''Build a game'', language = None, frameworks = None,
                 selectedTemplate = None, agentMode = None\<rparr>"
  let ?r = "ex_request (Some (ex_user ''limited'')) (Some ''Build a game'')"
  have h: "json_body ?r = Inr ?body \<and> \<not> falsy (query ?body) \<and>
           context_user ?r = Some (ex_user ''limited'')"
    by (simp add: ex_request_def)
  have l: "enforceAppCreationRateLimit ex_deps (ex_user ''limited'') =
             Some (RateLimitExceededError ''Rate limit exceeded'')"
    by (simp add: ex_deps_def ex_user_def)
  have an: "context_user (ex_request None (Some ''Build a game'')) = None"
    by (simp add: ex_request_def)
  from startCodeGeneration_rate_limit [of ?r ex_deps ex_env ex_actors_none]
  have "\<forall>body u. json_body ?r = Inr body \<and> \<not> falsy (query body) \<and> context_user ?r = Some u \<longrightarrow>
      (\<forall>e. enforceAppCreationRateLimit ex_deps u = Some e \<longrightarrow>
         startCodeGeneration ex_deps ex_env ex_actors_none ?r =
           (createErrorResponse
              (if instanceof_Error e then ErrorObject e else Message (stringify_thrown ex_deps e)) 429,
            [EnforceAppCreationRateLimit u]))"
    by blast
  from this [rule_format, OF h l]
  have a: "startCodeGeneration ex_deps ex_env ex_actors_none ?r =
     (createErrorResponse (ErrorObject (RateLimitExceededError ''Rate limit exceeded'')) 429,
      [EnforceAppCreationRateLimit (ex_user ''limited'')])"
    by simp
  from startCodeGeneration_rate_limit [of "ex_request None (Some ''Build a game'')" ex_deps ex_env ex_actors_none] an
  have b: "EnforceAppCreationRateLimit (ex_user ''ann'') \<notin>
     set (snd (startCodeGeneration ex_deps ex_env ex_actors_none
                 (ex_request None (Some ''Build a game''))))"
    by blast
  from a b show ?thesis by simp
qed

end
